theory Spec2Isabelle
  imports Main
begin

section \<open>JavaScript values used by the storefront\<close>

text \<open>
  A JavaScript string is a sequence of UTF-16 code units; every character the program
  names (ASCII and the Bengali block) is a single unit. ASCII literals are written with
  \<open>ascii\<close>, Bengali ones as their code units.
\<close>

type_synonym jsstring = "nat list"

definition ascii :: "string \<Rightarrow> jsstring" where
  "ascii s = map of_char s"

text \<open>
  \<open>WhiteSpace\<close> and \<open>LineTerminator\<close> of ECMAScript: the class \<open>\s\<close> of a regular
  expression, and what \<open>trim\<close> and \<open>parseInt\<close> strip.
\<close>

definition isWhiteSpace :: "nat \<Rightarrow> bool" where
  "isWhiteSpace c =
     (c = 9 \<or> c = 10 \<or> c = 11 \<or> c = 12 \<or> c = 13 \<or> c = 32 \<or> c = 160 \<or> c = 5760
      \<or> (8192 \<le> c \<and> c \<le> 8202) \<or> c = 8232 \<or> c = 8233 \<or> c = 8239 \<or> c = 8287
      \<or> c = 12288 \<or> c = 65279)"

definition isDigit :: "nat \<Rightarrow> bool" where
  "isDigit c = (48 \<le> c \<and> c \<le> 57)"

definition trim :: "jsstring \<Rightarrow> jsstring" where
  "trim s = rev (dropWhile isWhiteSpace (rev (dropWhile isWhiteSpace s)))"

text \<open>
  \<open>String.prototype.toLowerCase\<close>. The string is read as code points (a surrogate pair
  is one code point, a surrogate on its own is kept), the code points are mapped by the
  locale-insensitive lowercase mappings of the Unicode Character Database, and the result
  is written back as code units. The tables are those of Unicode 14.0.

  An entry \<open>(lo, hi, step, target)\<close> of the mapping table sends the code points
  \<open>lo, lo + step, ...\<close> up to \<open>hi\<close> to \<open>target, target + step, ...\<close>; the entries are
  in ascending order and a code point in no entry is its own lowercase.
\<close>

definition lowercase_table :: "(nat \<times> nat \<times> nat \<times> nat) list" where
  "lowercase_table =
    [(65, 90, 1, 97), (192, 214, 1, 224), (216, 222, 1, 248), (256, 302, 2, 257),
     (306, 310, 2, 307), (313, 327, 2, 314), (330, 374, 2, 331), (376, 376, 1, 255),
     (377, 381, 2, 378), (385, 385, 1, 595), (386, 388, 2, 387), (390, 390, 1, 596),
     (391, 391, 1, 392), (393, 394, 1, 598), (395, 395, 1, 396), (398, 398, 1, 477),
     (399, 399, 1, 601), (400, 400, 1, 603), (401, 401, 1, 402), (403, 403, 1, 608),
     (404, 404, 1, 611), (406, 406, 1, 617), (407, 407, 1, 616), (408, 408, 1, 409),
     (412, 412, 1, 623), (413, 413, 1, 626), (415, 415, 1, 629), (416, 420, 2, 417),
     (422, 422, 1, 640), (423, 423, 1, 424), (425, 425, 1, 643), (428, 428, 1, 429),
     (430, 430, 1, 648), (431, 431, 1, 432), (433, 434, 1, 650), (435, 437, 2, 436),
     (439, 439, 1, 658), (440, 440, 1, 441), (444, 444, 1, 445), (452, 452, 1, 454),
     (453, 453, 1, 454), (455, 455, 1, 457), (456, 456, 1, 457), (458, 458, 1, 460),
     (459, 475, 2, 460), (478, 494, 2, 479), (497, 497, 1, 499), (498, 500, 2, 499),
     (502, 502, 1, 405), (503, 503, 1, 447), (504, 542, 2, 505), (544, 544, 1, 414),
     (546, 562, 2, 547), (570, 570, 1, 11365), (571, 571, 1, 572), (573, 573, 1, 410),
     (574, 574, 1, 11366), (577, 577, 1, 578), (579, 579, 1, 384), (580, 580, 1, 649),
     (581, 581, 1, 652), (582, 590, 2, 583), (880, 882, 2, 881), (886, 886, 1, 887),
     (895, 895, 1, 1011), (902, 902, 1, 940), (904, 906, 1, 941), (908, 908, 1, 972),
     (910, 911, 1, 973), (913, 929, 1, 945), (932, 939, 1, 964), (975, 975, 1, 983),
     (984, 1006, 2, 985), (1012, 1012, 1, 952), (1015, 1015, 1, 1016), (1017, 1017, 1, 1010),
     (1018, 1018, 1, 1019), (1021, 1023, 1, 891), (1024, 1039, 1, 1104), (1040, 1071, 1, 1072),
     (1120, 1152, 2, 1121), (1162, 1214, 2, 1163), (1216, 1216, 1, 1231), (1217, 1229, 2, 1218),
     (1232, 1326, 2, 1233), (1329, 1366, 1, 1377), (4256, 4293, 1, 11520),
     (4295, 4295, 1, 11559), (4301, 4301, 1, 11565), (5024, 5103, 1, 43888),
     (5104, 5109, 1, 5112), (7312, 7354, 1, 4304), (7357, 7359, 1, 4349), (7680, 7828, 2, 7681),
     (7838, 7838, 1, 223), (7840, 7934, 2, 7841), (7944, 7951, 1, 7936), (7960, 7965, 1, 7952),
     (7976, 7983, 1, 7968), (7992, 7999, 1, 7984), (8008, 8013, 1, 8000), (8025, 8031, 2, 8017),
     (8040, 8047, 1, 8032), (8072, 8079, 1, 8064), (8088, 8095, 1, 8080), (8104, 8111, 1, 8096),
     (8120, 8121, 1, 8112), (8122, 8123, 1, 8048), (8124, 8124, 1, 8115), (8136, 8139, 1, 8050),
     (8140, 8140, 1, 8131), (8152, 8153, 1, 8144), (8154, 8155, 1, 8054), (8168, 8169, 1, 8160),
     (8170, 8171, 1, 8058), (8172, 8172, 1, 8165), (8184, 8185, 1, 8056), (8186, 8187, 1, 8060),
     (8188, 8188, 1, 8179), (8486, 8486, 1, 969), (8490, 8490, 1, 107), (8491, 8491, 1, 229),
     (8498, 8498, 1, 8526), (8544, 8559, 1, 8560), (8579, 8579, 1, 8580), (9398, 9423, 1, 9424),
     (11264, 11311, 1, 11312), (11360, 11360, 1, 11361), (11362, 11362, 1, 619),
     (11363, 11363, 1, 7549), (11364, 11364, 1, 637), (11367, 11371, 2, 11368),
     (11373, 11373, 1, 593), (11374, 11374, 1, 625), (11375, 11375, 1, 592),
     (11376, 11376, 1, 594), (11378, 11378, 1, 11379), (11381, 11381, 1, 11382),
     (11390, 11391, 1, 575), (11392, 11490, 2, 11393), (11499, 11501, 2, 11500),
     (11506, 11506, 1, 11507), (42560, 42604, 2, 42561), (42624, 42650, 2, 42625),
     (42786, 42798, 2, 42787), (42802, 42862, 2, 42803), (42873, 42875, 2, 42874),
     (42877, 42877, 1, 7545), (42878, 42886, 2, 42879), (42891, 42891, 1, 42892),
     (42893, 42893, 1, 613), (42896, 42898, 2, 42897), (42902, 42920, 2, 42903),
     (42922, 42922, 1, 614), (42923, 42923, 1, 604), (42924, 42924, 1, 609),
     (42925, 42925, 1, 620), (42926, 42926, 1, 618), (42928, 42928, 1, 670),
     (42929, 42929, 1, 647), (42930, 42930, 1, 669), (42931, 42931, 1, 43859),
     (42932, 42946, 2, 42933), (42948, 42948, 1, 42900), (42949, 42949, 1, 642),
     (42950, 42950, 1, 7566), (42951, 42953, 2, 42952), (42960, 42960, 1, 42961),
     (42966, 42968, 2, 42967), (42997, 42997, 1, 42998), (65313, 65338, 1, 65345),
     (66560, 66599, 1, 66600), (66736, 66771, 1, 66776), (66928, 66938, 1, 66967),
     (66940, 66954, 1, 66979), (66956, 66962, 1, 66995), (66964, 66965, 1, 67003),
     (68736, 68786, 1, 68800), (71840, 71871, 1, 71872), (93760, 93791, 1, 93792),
     (125184, 125217, 1, 125218)]"

fun lowercase_in :: "(nat \<times> nat \<times> nat \<times> nat) list \<Rightarrow> nat \<Rightarrow> nat" where
  "lowercase_in [] c = c"
| "lowercase_in ((lo, hi, step, target) # rest) c =
     (if c < lo then c
      else if c \<le> hi then (if (c - lo) mod step = 0 then target + (c - lo) else c)
      else lowercase_in rest c)"

text \<open>
  The two mappings of \<open>SpecialCasing.txt\<close> that hold in every locale: U+0130 becomes
  U+0069 U+0307, and U+03A3 becomes the final sigma U+03C2 when a cased letter comes
  before it and none after it, case-ignorable code points in between being skipped, and
  U+03C3 otherwise. \<open>case_ignorable_ranges\<close> is the property \<open>Case_Ignorable\<close>,
  \<open>cased_ranges\<close> the cased code points that are not case-ignorable, both as ascending
  intervals.
\<close>

definition case_ignorable_ranges :: "(nat \<times> nat) list" where
  "case_ignorable_ranges =
    [(39, 39), (46, 46), (58, 58), (94, 94), (96, 96), (168, 168), (173, 173), (175, 175),
     (180, 180), (183, 184), (688, 879), (884, 885), (890, 890), (900, 901), (903, 903),
     (1155, 1161), (1369, 1369), (1375, 1375), (1425, 1469), (1471, 1471), (1473, 1474),
     (1476, 1477), (1479, 1479), (1524, 1524), (1536, 1541), (1552, 1562), (1564, 1564),
     (1600, 1600), (1611, 1631), (1648, 1648), (1750, 1757), (1759, 1768), (1770, 1773),
     (1807, 1807), (1809, 1809), (1840, 1866), (1958, 1968), (2027, 2037), (2042, 2042),
     (2045, 2045), (2070, 2093), (2137, 2139), (2184, 2184), (2192, 2193), (2200, 2207),
     (2249, 2306), (2362, 2362), (2364, 2364), (2369, 2376), (2381, 2381), (2385, 2391),
     (2402, 2403), (2417, 2417), (2433, 2433), (2492, 2492), (2497, 2500), (2509, 2509),
     (2530, 2531), (2558, 2558), (2561, 2562), (2620, 2620), (2625, 2626), (2631, 2632),
     (2635, 2637), (2641, 2641), (2672, 2673), (2677, 2677), (2689, 2690), (2748, 2748),
     (2753, 2757), (2759, 2760), (2765, 2765), (2786, 2787), (2810, 2815), (2817, 2817),
     (2876, 2876), (2879, 2879), (2881, 2884), (2893, 2893), (2901, 2902), (2914, 2915),
     (2946, 2946), (3008, 3008), (3021, 3021), (3072, 3072), (3076, 3076), (3132, 3132),
     (3134, 3136), (3142, 3144), (3146, 3149), (3157, 3158), (3170, 3171), (3201, 3201),
     (3260, 3260), (3263, 3263), (3270, 3270), (3276, 3277), (3298, 3299), (3328, 3329),
     (3387, 3388), (3393, 3396), (3405, 3405), (3426, 3427), (3457, 3457), (3530, 3530),
     (3538, 3540), (3542, 3542), (3633, 3633), (3636, 3642), (3654, 3662), (3761, 3761),
     (3764, 3772), (3782, 3782), (3784, 3789), (3864, 3865), (3893, 3893), (3895, 3895),
     (3897, 3897), (3953, 3966), (3968, 3972), (3974, 3975), (3981, 3991), (3993, 4028),
     (4038, 4038), (4141, 4144), (4146, 4151), (4153, 4154), (4157, 4158), (4184, 4185),
     (4190, 4192), (4209, 4212), (4226, 4226), (4229, 4230), (4237, 4237), (4253, 4253),
     (4348, 4348), (4957, 4959), (5906, 5908), (5938, 5939), (5970, 5971), (6002, 6003),
     (6068, 6069), (6071, 6077), (6086, 6086), (6089, 6099), (6103, 6103), (6109, 6109),
     (6155, 6159), (6211, 6211), (6277, 6278), (6313, 6313), (6432, 6434), (6439, 6440),
     (6450, 6450), (6457, 6459), (6679, 6680), (6683, 6683), (6742, 6742), (6744, 6750),
     (6752, 6752), (6754, 6754), (6757, 6764), (6771, 6780), (6783, 6783), (6823, 6823),
     (6832, 6862), (6912, 6915), (6964, 6964), (6966, 6970), (6972, 6972), (6978, 6978),
     (7019, 7027), (7040, 7041), (7074, 7077), (7080, 7081), (7083, 7085), (7142, 7142),
     (7144, 7145), (7149, 7149), (7151, 7153), (7212, 7219), (7222, 7223), (7288, 7293),
     (7376, 7378), (7380, 7392), (7394, 7400), (7405, 7405), (7412, 7412), (7416, 7417),
     (7468, 7530), (7544, 7544), (7579, 7679), (8125, 8125), (8127, 8129), (8141, 8143),
     (8157, 8159), (8173, 8175), (8189, 8190), (8203, 8207), (8216, 8217), (8228, 8228),
     (8231, 8231), (8234, 8238), (8288, 8292), (8294, 8303), (8305, 8305), (8319, 8319),
     (8336, 8348), (8400, 8432), (11388, 11389), (11503, 11505), (11631, 11631), (11647, 11647),
     (11744, 11775), (11823, 11823), (12293, 12293), (12330, 12333), (12337, 12341),
     (12347, 12347), (12441, 12446), (12540, 12542), (40981, 40981), (42232, 42237),
     (42508, 42508), (42607, 42610), (42612, 42621), (42623, 42623), (42652, 42655),
     (42736, 42737), (42752, 42785), (42864, 42864), (42888, 42890), (42994, 42996),
     (43000, 43001), (43010, 43010), (43014, 43014), (43019, 43019), (43045, 43046),
     (43052, 43052), (43204, 43205), (43232, 43249), (43263, 43263), (43302, 43309),
     (43335, 43345), (43392, 43394), (43443, 43443), (43446, 43449), (43452, 43453),
     (43471, 43471), (43493, 43494), (43561, 43566), (43569, 43570), (43573, 43574),
     (43587, 43587), (43596, 43596), (43632, 43632), (43644, 43644), (43696, 43696),
     (43698, 43700), (43703, 43704), (43710, 43711), (43713, 43713), (43741, 43741),
     (43756, 43757), (43763, 43764), (43766, 43766), (43867, 43871), (43881, 43883),
     (44005, 44005), (44008, 44008), (44013, 44013), (64286, 64286), (64434, 64450),
     (65024, 65039), (65043, 65043), (65056, 65071), (65106, 65106), (65109, 65109),
     (65279, 65279), (65287, 65287), (65294, 65294), (65306, 65306), (65342, 65342),
     (65344, 65344), (65392, 65392), (65438, 65439), (65507, 65507), (65529, 65531),
     (66045, 66045), (66272, 66272), (66422, 66426), (67456, 67461), (67463, 67504),
     (67506, 67514), (68097, 68099), (68101, 68102), (68108, 68111), (68152, 68154),
     (68159, 68159), (68325, 68326), (68900, 68903), (69291, 69292), (69446, 69456),
     (69506, 69509), (69633, 69633), (69688, 69702), (69744, 69744), (69747, 69748),
     (69759, 69761), (69811, 69814), (69817, 69818), (69821, 69821), (69826, 69826),
     (69837, 69837), (69888, 69890), (69927, 69931), (69933, 69940), (70003, 70003),
     (70016, 70017), (70070, 70078), (70089, 70092), (70095, 70095), (70191, 70193),
     (70196, 70196), (70198, 70199), (70206, 70206), (70367, 70367), (70371, 70378),
     (70400, 70401), (70459, 70460), (70464, 70464), (70502, 70508), (70512, 70516),
     (70712, 70719), (70722, 70724), (70726, 70726), (70750, 70750), (70835, 70840),
     (70842, 70842), (70847, 70848), (70850, 70851), (71090, 71093), (71100, 71101),
     (71103, 71104), (71132, 71133), (71219, 71226), (71229, 71229), (71231, 71232),
     (71339, 71339), (71341, 71341), (71344, 71349), (71351, 71351), (71453, 71455),
     (71458, 71461), (71463, 71467), (71727, 71735), (71737, 71738), (71995, 71996),
     (71998, 71998), (72003, 72003), (72148, 72151), (72154, 72155), (72160, 72160),
     (72193, 72202), (72243, 72248), (72251, 72254), (72263, 72263), (72273, 72278),
     (72281, 72283), (72330, 72342), (72344, 72345), (72752, 72758), (72760, 72765),
     (72767, 72767), (72850, 72871), (72874, 72880), (72882, 72883), (72885, 72886),
     (73009, 73014), (73018, 73018), (73020, 73021), (73023, 73029), (73031, 73031),
     (73104, 73105), (73109, 73109), (73111, 73111), (73459, 73460), (78896, 78904),
     (92912, 92916), (92976, 92982), (92992, 92995), (94031, 94031), (94095, 94111),
     (94176, 94177), (94179, 94180), (110576, 110579), (110581, 110587), (110589, 110590),
     (113821, 113822), (113824, 113827), (118528, 118573), (118576, 118598), (119143, 119145),
     (119155, 119170), (119173, 119179), (119210, 119213), (119362, 119364), (121344, 121398),
     (121403, 121452), (121461, 121461), (121476, 121476), (121499, 121503), (121505, 121519),
     (122880, 122886), (122888, 122904), (122907, 122913), (122915, 122916), (122918, 122922),
     (123184, 123197), (123566, 123566), (123628, 123631), (125136, 125142), (125252, 125259),
     (127995, 127999), (917505, 917505), (917536, 917631), (917760, 917999)]"

definition cased_ranges :: "(nat \<times> nat) list" where
  "cased_ranges =
    [(65, 90), (97, 122), (170, 170), (181, 181), (186, 186), (192, 214), (216, 246),
     (248, 442), (444, 447), (452, 659), (661, 687), (880, 883), (886, 887), (891, 893),
     (895, 895), (902, 902), (904, 906), (908, 908), (910, 929), (931, 1013), (1015, 1153),
     (1162, 1327), (1329, 1366), (1376, 1416), (4256, 4293), (4295, 4295), (4301, 4301),
     (4304, 4346), (4349, 4351), (5024, 5109), (5112, 5117), (7296, 7304), (7312, 7354),
     (7357, 7359), (7424, 7467), (7531, 7543), (7545, 7578), (7680, 7957), (7960, 7965),
     (7968, 8005), (8008, 8013), (8016, 8023), (8025, 8025), (8027, 8027), (8029, 8029),
     (8031, 8061), (8064, 8116), (8118, 8124), (8126, 8126), (8130, 8132), (8134, 8140),
     (8144, 8147), (8150, 8155), (8160, 8172), (8178, 8180), (8182, 8188), (8450, 8450),
     (8455, 8455), (8458, 8467), (8469, 8469), (8473, 8477), (8484, 8484), (8486, 8486),
     (8488, 8488), (8490, 8493), (8495, 8500), (8505, 8505), (8508, 8511), (8517, 8521),
     (8526, 8526), (8544, 8575), (8579, 8580), (9398, 9449), (11264, 11387), (11390, 11492),
     (11499, 11502), (11506, 11507), (11520, 11557), (11559, 11559), (11565, 11565),
     (42560, 42605), (42624, 42651), (42786, 42863), (42865, 42887), (42891, 42894),
     (42896, 42954), (42960, 42961), (42963, 42963), (42965, 42969), (42997, 42998),
     (43002, 43002), (43824, 43866), (43872, 43880), (43888, 43967), (64256, 64262),
     (64275, 64279), (65313, 65338), (65345, 65370), (66560, 66639), (66736, 66771),
     (66776, 66811), (66928, 66938), (66940, 66954), (66956, 66962), (66964, 66965),
     (66967, 66977), (66979, 66993), (66995, 67001), (67003, 67004), (68736, 68786),
     (68800, 68850), (71840, 71903), (93760, 93823), (119808, 119892), (119894, 119964),
     (119966, 119967), (119970, 119970), (119973, 119974), (119977, 119980), (119982, 119993),
     (119995, 119995), (119997, 120003), (120005, 120069), (120071, 120074), (120077, 120084),
     (120086, 120092), (120094, 120121), (120123, 120126), (120128, 120132), (120134, 120134),
     (120138, 120144), (120146, 120485), (120488, 120512), (120514, 120538), (120540, 120570),
     (120572, 120596), (120598, 120628), (120630, 120654), (120656, 120686), (120688, 120712),
     (120714, 120744), (120746, 120770), (120772, 120779), (122624, 122633), (122635, 122654),
     (125184, 125251), (127280, 127305), (127312, 127337), (127344, 127369)]"

fun in_ranges :: "(nat \<times> nat) list \<Rightarrow> nat \<Rightarrow> bool" where
  "in_ranges [] c = False"
| "in_ranges ((lo, hi) # rest) c = (if c < lo then False else if c \<le> hi then True
                                     else in_ranges rest c)"

fun cased_next :: "nat list \<Rightarrow> bool" where
  "cased_next [] = False"
| "cased_next (c # cs) =
     (if in_ranges case_ignorable_ranges c then cased_next cs else in_ranges cased_ranges c)"

fun StringToCodePoints :: "jsstring \<Rightarrow> nat list" where
  "StringToCodePoints (c # d # cs) =
     (if 55296 \<le> c \<and> c \<le> 56319 \<and> 56320 \<le> d \<and> d \<le> 57343
      then (65536 + (c - 55296) * 1024 + (d - 56320)) # StringToCodePoints cs
      else c # StringToCodePoints (d # cs))"
| "StringToCodePoints cs = cs"

definition CodePointsToString :: "nat list \<Rightarrow> jsstring" where
  "CodePointsToString cps =
     concat (map (\<lambda>cp. if cp < 65536 then [cp]
                          else [55296 + (cp - 65536) div 1024, 56320 + (cp - 65536) mod 1024])
                 cps)"

text \<open>\<open>passed\<close> holds the code points already read, the nearest first.\<close>

fun toLowercase :: "nat list \<Rightarrow> nat list \<Rightarrow> nat list" where
  "toLowercase passed [] = []"
| "toLowercase passed (c # rest) =
     (if c = 931 then [if cased_next passed \<and> \<not> cased_next rest then 962 else 963]
      else if c = 304 then [105, 775]
      else [lowercase_in lowercase_table c])
     @ toLowercase (c # passed) rest"

definition toLowerCase :: "jsstring \<Rightarrow> jsstring" where
  "toLowerCase s = CodePointsToString (toLowercase [] (StringToCodePoints s))"

text \<open>\<open>s.includes(sub)\<close>: \<open>sub\<close> occurs in \<open>s\<close> at some position.\<close>

fun includes_str :: "jsstring \<Rightarrow> jsstring \<Rightarrow> bool" where
  "includes_str [] sub = (sub = [])"
| "includes_str (c # cs) sub = (take (length sub) (c # cs) = sub \<or> includes_str cs sub)"

section \<open>Delivery fee and delivery area\<close>

text \<open>The list \<open>dhakaAreas\<close> as \<open>calculateDeliveryFee\<close> (data-manager.js) declares it.\<close>

definition calculateDeliveryFee_dhakaAreas :: "jsstring list" where
  "calculateDeliveryFee_dhakaAreas =
    [[2466, 2494, 2453, 2494],
     ascii ''Dhaka'',
     ascii ''DHAKA'',
     [2478, 2495, 2480, 2474, 2497, 2480],
     [2441, 2468, 2509, 2468, 2480, 2494],
     [2455, 2497, 2482, 2486, 2494, 2472],
     [2476, 2472, 2494, 2472, 2496],
     [2471, 2494, 2472, 2478, 2472, 2509, 2465, 2495],
     [2478, 2507, 2489, 2494, 2478, 2509, 2478, 2470, 2474, 2497, 2480],
     [2475, 2494, 2480, 2509, 2478, 2455, 2503, 2463],
     [2486, 2494, 2489, 2476, 2494, 2455],
     [2479, 2494, 2468, 2509, 2480, 2494, 2476, 2494, 2465, 2492, 2496],
     [2480, 2494, 2478, 2474, 2497, 2480, 2494],
     [2476, 2494, 2465, 2509, 2465, 2494]]"

text \<open>The list \<open>dhakaAreas\<close> as \<open>CheckoutManager.getDeliveryArea\<close> declares it.\<close>

definition getDeliveryArea_dhakaAreas :: "jsstring list" where
  "getDeliveryArea_dhakaAreas =
    [[2466, 2494, 2453, 2494],
     ascii ''Dhaka'',
     ascii ''DHAKA'',
     [2478, 2495, 2480, 2474, 2497, 2480],
     [2441, 2468, 2509, 2468, 2480, 2494],
     [2455, 2497, 2482, 2486, 2494, 2472],
     [2476, 2472, 2494, 2472, 2496],
     [2471, 2494, 2472, 2478, 2472, 2509, 2465, 2495],
     [2478, 2507, 2489, 2494, 2478, 2509, 2478, 2470, 2474, 2497, 2480],
     [2475, 2494, 2480, 2509, 2478, 2455, 2503, 2463],
     [2486, 2494, 2489, 2476, 2494, 2455],
     [2479, 2494, 2468, 2509, 2480, 2494, 2476, 2494, 2465, 2492, 2496],
     [2480, 2494, 2478, 2474, 2497, 2480, 2494],
     [2476, 2494, 2465, 2509, 2465, 2494]]"

text \<open>
  \<open>function calculateDeliveryFee(address)\<close>. \<open>!address\<close> holds of the empty string;
  \<open>some\<close> is \<open>list_ex\<close>. The first argument is \<open>toLowerCase\<close>.
\<close>

definition calculateDeliveryFee :: "(jsstring \<Rightarrow> jsstring) \<Rightarrow> jsstring \<Rightarrow> int" where
  "calculateDeliveryFee lower address =
     (if address = [] then 150
      else
        let addressLower = lower address;
            isInsideDhaka =
              list_ex (\<lambda>area. includes_str addressLower (lower area)) calculateDeliveryFee_dhakaAreas
        in if isInsideDhaka then 80 else 150)"

text \<open>\<open>CheckoutManager.calculateDeliveryFee(address)\<close> calls the utility.\<close>

definition CheckoutManager_calculateDeliveryFee ::
    "(jsstring \<Rightarrow> jsstring) \<Rightarrow> jsstring \<Rightarrow> int" where
  "CheckoutManager_calculateDeliveryFee lower address = calculateDeliveryFee lower address"

text \<open>\<open>CheckoutManager.getDeliveryArea(address)\<close>.\<close>

definition getDeliveryArea :: "(jsstring \<Rightarrow> jsstring) \<Rightarrow> jsstring \<Rightarrow> string" where
  "getDeliveryArea lower address =
     (if address = [] then ''outside''
      else
        let addressLower = lower address;
            isInsideDhaka =
              list_ex (\<lambda>area. includes_str addressLower (lower area)) getDeliveryArea_dhakaAreas
        in if isInsideDhaka then ''inside_dhaka'' else ''outside_dhaka'')"

text \<open>
  The claim's words for the delivery rule: a name occurs in the address at some position,
  letter case apart. Two code units are the same letter, case apart, when they are equal
  once A to Z are replaced by a to z; this is what letter case is on the text the
  program's names are written in, ASCII and the Bengali block.
\<close>

definition fold_case :: "nat \<Rightarrow> nat" where
  "fold_case c = (if 65 \<le> c \<and> c \<le> 90 then c + 32 else c)"

definition occurs_ignoring_case :: "jsstring \<Rightarrow> jsstring \<Rightarrow> bool" where
  "occurs_ignoring_case name address =
     list_ex (\<lambda>i. list_all2 (\<lambda>x y. fold_case x = fold_case y)
                     (take (length name) (drop i address)) name)
       [0..<Suc (length address)]"

definition plain_text :: "jsstring \<Rightarrow> bool" where
  "plain_text s = list_all (\<lambda>c. c < 128 \<or> (2432 \<le> c \<and> c \<le> 2559)) s"

section \<open>Regular expressions and the field validators\<close>

text \<open>
  The fragment of JavaScript regular expressions the validators are written in. An
  expression is run at the start of the input; \<open>rests\<close> lists what is left of the input
  after each way it can match there, so an expression between \<open>^\<close> and \<open>$\<close> accepts the
  input when one of them is empty.
\<close>

datatype regex =
    Class "nat \<Rightarrow> bool"
  | Seq regex regex
  | Alt regex regex
  | Opt regex
  | Rep nat regex
  | Plus regex

primrec rep :: "nat \<Rightarrow> (jsstring \<Rightarrow> jsstring list) \<Rightarrow> jsstring \<Rightarrow> jsstring list" where
  "rep 0 m s = [s]"
| "rep (Suc n) m s = concat (map (rep n m) (m s))"

text \<open>
  \<open>r+\<close>: one match of \<open>r\<close>, then any number of further ones. A further iteration that
  consumes nothing is not taken, so the input's length bounds their number.
\<close>

primrec star :: "nat \<Rightarrow> (jsstring \<Rightarrow> jsstring list) \<Rightarrow> jsstring \<Rightarrow> jsstring list" where
  "star 0 m s = [s]"
| "star (Suc n) m s =
     concat (map (star n m) (filter (\<lambda>t. length t < length s) (m s))) @ [s]"

primrec rests :: "regex \<Rightarrow> jsstring \<Rightarrow> jsstring list" where
  "rests (Class p) s = (case s of [] \<Rightarrow> [] | c # cs \<Rightarrow> if p c then [cs] else [])"
| "rests (Seq r1 r2) s = concat (map (rests r2) (rests r1 s))"
| "rests (Alt r1 r2) s = rests r1 s @ rests r2 s"
| "rests (Opt r) s = rests r s @ [s]"
| "rests (Rep n r) s = rep n (rests r) s"
| "rests (Plus r) s = concat (map (star (length s) (rests r)) (rests r s))"

definition regex_test :: "regex \<Rightarrow> jsstring \<Rightarrow> bool" where
  "regex_test r s = ([] \<in> set (rests r s))"

definition Chr :: "nat \<Rightarrow> regex" where
  "Chr c = Class (\<lambda>x. x = c)"

text \<open>\<open>/^(?:\+88|01)?(?:\d{11}|\d{13})$/\<close>\<close>

definition phoneRegex :: regex where
  "phoneRegex =
     Seq (Opt (Alt (Seq (Chr 43) (Seq (Chr 56) (Chr 56))) (Seq (Chr 48) (Chr 49))))
         (Alt (Rep 11 (Class isDigit)) (Rep 13 (Class isDigit)))"

text \<open>\<open>phone.replace(/\s+/g, '')\<close>: every maximal run of white space is replaced by nothing.\<close>

function replace_whitespace :: "jsstring \<Rightarrow> jsstring" where
  "replace_whitespace [] = []"
| "replace_whitespace (c # cs) =
     (if isWhiteSpace c then replace_whitespace (dropWhile isWhiteSpace cs)
      else c # replace_whitespace cs)"
  by pat_completeness auto
termination
  by (relation "measure length") (auto simp: less_Suc_eq_le length_dropWhile_le)

definition validatePhone :: "jsstring \<Rightarrow> bool" where
  "validatePhone phone = regex_test phoneRegex (replace_whitespace phone)"

text \<open>\<open>/^[^\s@]+@[^\s@]+\.[^\s@]+$/\<close>\<close>

definition emailRegex :: regex where
  "emailRegex =
     (let notSpaceAt = Class (\<lambda>c. \<not> isWhiteSpace c \<and> c \<noteq> 64)
      in Seq (Plus notSpaceAt) (Seq (Chr 64) (Seq (Plus notSpaceAt)
           (Seq (Chr 46) (Plus notSpaceAt)))))"

definition validateEmail :: "jsstring \<Rightarrow> bool" where
  "validateEmail email = regex_test emailRegex email"

text \<open>
  \<open>CheckoutManager.validateField(input)\<close>, as a function of the field's name and text;
  the result is \<open>isValid\<close>. Showing the message beside the field is left out.
\<close>

definition validateField :: "string \<Rightarrow> jsstring \<Rightarrow> bool" where
  "validateField fieldName input_value =
     (let v = trim input_value
      in if fieldName = ''customer_name'' then length v \<ge> 2
         else if fieldName = ''phone'' then validatePhone v
         else if fieldName = ''address'' then length v \<ge> 10
         else if fieldName = ''email'' then (if v \<noteq> [] then validateEmail v else True)
         else True)"

section \<open>Catalog: mapping the raw API records\<close>

text \<open>
  The value of a property of a raw record, of a product or of a cart line: a scalar of
  JSON, or \<open>undefined\<close> when the property is absent. A number is given by the text
  JavaScript prints for it (\<open>String(n)\<close>): 500 is \<open>Num (ascii ''500'')\<close>, 499.5 is
  \<open>Num (ascii ''499.5'')\<close>. Two numbers are equal when they print alike, and the only
  number that prints as \<open>0\<close> is 0, so \<open>===\<close> on these values is equality and
  truthiness reads the text.
\<close>

datatype jsval = Undefined | Null | Bool bool | Num jsstring | Str jsstring

definition truthy :: "jsval \<Rightarrow> bool" where
  "truthy v =
     (case v of
        Undefined \<Rightarrow> False
      | Null \<Rightarrow> False
      | Bool b \<Rightarrow> b
      | Num n \<Rightarrow> n \<noteq> ascii ''0'' \<and> n \<noteq> ascii ''NaN''
      | Str s \<Rightarrow> s \<noteq> [])"

definition ToString :: "jsval \<Rightarrow> jsstring" where
  "ToString v =
     (case v of
        Undefined \<Rightarrow> ascii ''undefined''
      | Null \<Rightarrow> ascii ''null''
      | Bool b \<Rightarrow> (if b then ascii ''true'' else ascii ''false'')
      | Num n \<Rightarrow> n
      | Str s \<Rightarrow> s)"

datatype error = TypeError

text \<open>
  \<open>parseInt(string)\<close> with no radix: leading white space is dropped, a sign is read, the
  prefix \<open>0x\<close> or \<open>0X\<close> selects radix 16, and the longest run of digits is the value;
  \<open>None\<close> is \<open>NaN\<close>. The value is the exact integer (a JavaScript number holds it
  exactly below \<open>2^53\<close>).
\<close>

definition isRadixDigit :: "nat \<Rightarrow> nat \<Rightarrow> bool" where
  "isRadixDigit R c =
     ((48 \<le> c \<and> c \<le> 57 \<and> c - 48 < R) \<or> (97 \<le> c \<and> c \<le> 122 \<and> c - 87 < R)
      \<or> (65 \<le> c \<and> c \<le> 90 \<and> c - 55 < R))"

definition digitValue :: "nat \<Rightarrow> nat" where
  "digitValue c = (if c \<le> 57 then c - 48 else if 97 \<le> c then c - 87 else c - 55)"

definition parseInt :: "jsval \<Rightarrow> int option" where
  "parseInt v =
     (let S = dropWhile isWhiteSpace (ToString v);
          sign = (if take 1 S = [45] then - 1 else 1 :: int);
          S1 = (if take 1 S = [43] \<or> take 1 S = [45] then drop 1 S else S);
          hex = (take 2 S1 = [48, 120] \<or> take 2 S1 = [48, 88]);
          R = (if hex then 16 else 10);
          S2 = (if hex then drop 2 S1 else S1);
          Z = takeWhile (isRadixDigit R) S2
      in if Z = [] then None
         else Some (sign * int (foldl (\<lambda>n c. n * R + digitValue c) 0 Z)))"

record raw_product =
  raw_Product_ID :: jsval
  raw_Name :: jsval
  raw_Description :: jsval
  raw_Price_BDT :: jsval
  raw_Category :: jsval
  raw_Size :: jsval
  raw_Color :: jsval
  raw_Drive_Link :: jsval
  raw_Image_Folder :: jsval
  raw_Main_Image :: jsval
  raw_Image1 :: jsval
  raw_Image2 :: jsval
  raw_Image3 :: jsval
  raw_Image4 :: jsval
  raw_Image5 :: jsval
  raw_Image6 :: jsval

record product =
  product_id :: jsval
  product_name :: jsval
  product_description :: jsval
  product_price :: int
  product_category :: jsval
  product_size :: jsval
  product_color :: jsval
  product_driveLink :: jsval
  product_imageFolder :: jsval
  product_mainImage :: jsval
  product_images :: "jsval list"
  product_inStock :: bool
  product_featured :: bool
  product_badge :: jsstring

text \<open>
  \<open>determineProductBadge(product)\<close> draws one of four badges at random. The draw
  \<open>Math.floor(Math.random() * badges.length)\<close> is the argument \<open>r\<close>, read modulo 4.
\<close>

definition determineProductBadge :: "nat \<Rightarrow> raw_product \<Rightarrow> jsstring" where
  "determineProductBadge r p =
     (let badges = [ascii ''new'', ascii ''bestseller'', ascii ''discount'', []]
      in badges ! (r mod 4))"

text \<open>
  The seven image cells of a record, in the order of the array literal, and the filter
  \<open>img => img && img.trim() !== ''\<close> over them. A falsy cell is dropped before
  \<open>trim\<close> is reached; a truthy cell that is not text (a number, \<open>true\<close>) has no
  \<open>trim\<close> method and the call throws.
\<close>

definition image_cells :: "raw_product \<Rightarrow> jsval list" where
  "image_cells p =
     [raw_Main_Image p, raw_Image1 p, raw_Image2 p, raw_Image3 p, raw_Image4 p,
      raw_Image5 p, raw_Image6 p]"

fun filter_images :: "jsval list \<Rightarrow> error + jsval list" where
  "filter_images [] = Inr []"
| "filter_images (img # imgs) =
     (if \<not> truthy img then filter_images imgs
      else case img of
             Str s \<Rightarrow>
               (case filter_images imgs of
                  Inl e \<Rightarrow> Inl e
                | Inr kept \<Rightarrow> Inr (if trim s \<noteq> [] then img # kept else kept))
           | _ \<Rightarrow> Inl TypeError)"

text \<open>
  The function \<open>processProducts\<close> maps over the raw records. \<open>NaN || 0\<close> and \<open>0 || 0\<close>
  are 0.
\<close>

definition mapProduct :: "nat \<Rightarrow> raw_product \<Rightarrow> error + product" where
  "mapProduct r p =
     (case filter_images (image_cells p) of
        Inl e \<Rightarrow> Inl e
      | Inr images \<Rightarrow>
          Inr \<lparr> product_id = raw_Product_ID p,
                product_name = raw_Name p,
                product_description = raw_Description p,
                product_price = (case parseInt (raw_Price_BDT p) of None \<Rightarrow> 0 | Some n \<Rightarrow> n),
                product_category = raw_Category p,
                product_size = raw_Size p,
                product_color = raw_Color p,
                product_driveLink = raw_Drive_Link p,
                product_imageFolder = raw_Image_Folder p,
                product_mainImage = raw_Main_Image p,
                product_images = images,
                product_inStock = True,
                product_featured = False,
                product_badge = determineProductBadge r p \<rparr>)"

text \<open>
  \<open>products.map(...)\<close> from position \<open>i\<close> on; \<open>draws i\<close> is the random draw made for
  the record at position \<open>i\<close>. The first record that throws ends the call.
\<close>

fun map_products :: "(nat \<Rightarrow> nat) \<Rightarrow> nat \<Rightarrow> raw_product list \<Rightarrow> error + product list" where
  "map_products draws i [] = Inr []"
| "map_products draws i (p # ps) =
     (case mapProduct (draws i) p of
        Inl e \<Rightarrow> Inl e
      | Inr q \<Rightarrow>
          (case map_products draws (Suc i) ps of
             Inl e \<Rightarrow> Inl e
           | Inr qs \<Rightarrow> Inr (q # qs)))"

text \<open>\<open>DataManager.processProducts(products)\<close>\<close>

definition processProducts :: "(nat \<Rightarrow> nat) \<Rightarrow> raw_product list \<Rightarrow> error + product list" where
  "processProducts draws products =
     (case map_products draws 0 products of
        Inl e \<Rightarrow> Inl e
      | Inr mapped \<Rightarrow>
          Inr (filter (\<lambda>product. truthy (product_id product) \<and> truthy (product_name product)
                                  \<and> product_price product > 0) mapped))"

text \<open>\<open>DataManager.getProductById(productId)\<close>; \<open>None\<close> is \<open>null\<close>.\<close>

definition getProductById :: "product list \<Rightarrow> jsval \<Rightarrow> product option" where
  "getProductById products productId = find (\<lambda>product. product_id product = productId) products"

definition isProductsLoaded :: "product list \<Rightarrow> bool" where
  "isProductsLoaded products = (length products > 0)"

section \<open>Cart Manager\<close>

text \<open>The argument of \<open>addToCart\<close>; \<open>item_quantity\<close> is \<open>None\<close> when the property is absent.\<close>

record item =
  item_id :: jsval
  item_name :: jsval
  item_price :: int
  item_image :: jsval
  item_quantity :: "int option"
  item_color :: jsval
  item_size :: jsval

record cartItem =
  cartItem_id :: jsval
  cartItem_name :: jsval
  cartItem_price :: int
  cartItem_image :: jsval
  cartItem_quantity :: int
  cartItem_color :: jsval
  cartItem_size :: jsval
  cartItem_addedAt :: jsstring

text \<open>
  The two messages the cart manager hands to \<open>showNotification\<close>, both of type
  \<open>warning\<close>: "at most 10 products can be ordered" and "some products were removed from
  your cart".
\<close>

datatype notification = MaxTenProducts | ProductsRemoved

text \<open>
  What the cart manager reads and writes: the list \<open>this.cart\<close>, the values written
  under the storage key (the latest last), the number of \<open>cartUpdated\<close> events
  dispatched, and the notifications shown. Rendering writes the page only.
\<close>

record state =
  cart :: "cartItem list"
  storage_writes :: "cartItem list list"
  cartUpdated_events :: nat
  notifications :: "notification list"

definition saveCart :: "state \<Rightarrow> state" where
  "saveCart s = s\<lparr>storage_writes := storage_writes s @ [cart s]\<rparr>"

definition updateCartDisplay :: "state \<Rightarrow> state" where
  "updateCartDisplay s = s"

definition dispatchCartUpdate :: "state \<Rightarrow> state" where
  "dispatchCartUpdate s = s\<lparr>cartUpdated_events := Suc (cartUpdated_events s)\<rparr>"

definition showNotification :: "notification \<Rightarrow> state \<Rightarrow> state" where
  "showNotification n s = s\<lparr>notifications := notifications s @ [n]\<rparr>"

text \<open>The position of the element \<open>Array.prototype.find\<close> returns.\<close>

fun findIndex :: "('a \<Rightarrow> bool) \<Rightarrow> 'a list \<Rightarrow> nat option" where
  "findIndex P [] = None"
| "findIndex P (x # xs) = (if P x then Some 0 else map_option Suc (findIndex P xs))"

text \<open>\<open>v || null\<close> and \<open>item.quantity || 1\<close>.\<close>

definition or_null :: "jsval \<Rightarrow> jsval" where
  "or_null v = (if truthy v then v else Null)"

definition quantity_or_1 :: "int option \<Rightarrow> int" where
  "quantity_or_1 q = (case q of None \<Rightarrow> 1 | Some n \<Rightarrow> if n \<noteq> 0 then n else 1)"

text \<open>
  \<open>CartManager.addToCart(item)\<close>; \<open>None\<close> is a \<open>null\<close> argument, \<open>now\<close> is
  \<open>new Date().toISOString()\<close>.
\<close>

definition addToCart :: "jsstring \<Rightarrow> item option \<Rightarrow> state \<Rightarrow> state" where
  "addToCart now arg s =
     (case arg of
        None \<Rightarrow> s
      | Some item \<Rightarrow>
          if \<not> truthy (item_id item) then s
          else
            let existingItem =
                  findIndex (\<lambda>cartItem. cartItem_id cartItem = item_id item
                                \<and> cartItem_color cartItem = item_color item
                                \<and> cartItem_size cartItem = item_size item) (cart s);
                cart' =
                  (case existingItem of
                     Some k \<Rightarrow>
                       (cart s)[k := (cart s ! k)\<lparr>cartItem_quantity :=
                           cartItem_quantity (cart s ! k) + quantity_or_1 (item_quantity item)\<rparr>]
                   | None \<Rightarrow>
                       cart s @
                       [\<lparr> cartItem_id = item_id item,
                          cartItem_name = item_name item,
                          cartItem_price = item_price item,
                          cartItem_image = item_image item,
                          cartItem_quantity = quantity_or_1 (item_quantity item),
                          cartItem_color = or_null (item_color item),
                          cartItem_size = or_null (item_size item),
                          cartItem_addedAt = now \<rparr>])
            in dispatchCartUpdate (updateCartDisplay (saveCart (s\<lparr>cart := cart'\<rparr>))))"

text \<open>\<open>CartManager.removeFromCart(index)\<close>; \<open>splice(index, 1)\<close> deletes one element.\<close>

definition removeFromCart :: "int \<Rightarrow> state \<Rightarrow> state" where
  "removeFromCart index s =
     (if index \<ge> 0 \<and> index < int (length (cart s)) then
        dispatchCartUpdate (updateCartDisplay (saveCart
          (s\<lparr>cart := take (nat index) (cart s) @ drop (Suc (nat index)) (cart s)\<rparr>)))
      else s)"

text \<open>\<open>CartManager.updateQuantity(index, quantity)\<close>\<close>

definition updateQuantity :: "int \<Rightarrow> int \<Rightarrow> state \<Rightarrow> state" where
  "updateQuantity index quantity s =
     (if index \<ge> 0 \<and> index < int (length (cart s)) \<and> quantity > 0 then
        dispatchCartUpdate (updateCartDisplay (saveCart
          (s\<lparr>cart := (cart s)[nat index :=
                 (cart s ! nat index)\<lparr>cartItem_quantity := quantity\<rparr>]\<rparr>)))
      else s)"

text \<open>\<open>CartManager.clearCart()\<close>\<close>

definition clearCart :: "state \<Rightarrow> state" where
  "clearCart s = dispatchCartUpdate (updateCartDisplay (saveCart (s\<lparr>cart := []\<rparr>)))"

text \<open>
  \<open>CartManager.decreaseQuantity(index)\<close> and \<open>increaseQuantity(index)\<close>. Outside the
  list \<open>this.cart[index]\<close> is \<open>undefined\<close> and reading its quantity throws.
\<close>

definition decreaseQuantity :: "int \<Rightarrow> state \<Rightarrow> error + state" where
  "decreaseQuantity index s =
     (if index \<ge> 0 \<and> index < int (length (cart s)) then
        let item = cart s ! nat index
        in if cartItem_quantity item > 1
           then Inr (updateQuantity index (cartItem_quantity item - 1) s)
           else Inr (removeFromCart index s)
      else Inl TypeError)"

definition increaseQuantity :: "int \<Rightarrow> state \<Rightarrow> error + state" where
  "increaseQuantity index s =
     (if index \<ge> 0 \<and> index < int (length (cart s)) then
        let item = cart s ! nat index
        in if cartItem_quantity item < 10
           then Inr (updateQuantity index (cartItem_quantity item + 1) s)
           else Inr (showNotification MaxTenProducts s)
      else Inl TypeError)"

text \<open>
  \<open>CartManager.validateCartItems()\<close> against the catalog \<open>dataManager.products\<close>. The
  \<open>forEach\<close> is a fold over the cart that carries \<open>validCart\<close> and \<open>hasChanges\<close>.
\<close>

definition validateCartItems_step ::
    "product list \<Rightarrow> cartItem list \<times> bool \<Rightarrow> cartItem \<Rightarrow> cartItem list \<times> bool" where
  "validateCartItems_step products acc item =
     (case acc of (validCart, hasChanges) \<Rightarrow>
        (case getProductById products (cartItem_id item) of
           Some product \<Rightarrow>
             (validCart @ [item\<lparr>cartItem_name := product_name product,
                                cartItem_price := product_price product,
                                cartItem_image := product_mainImage product\<rparr>], hasChanges)
         | None \<Rightarrow> (validCart, True)))"

definition validateCartItems :: "product list \<Rightarrow> state \<Rightarrow> state" where
  "validateCartItems products s =
     (if \<not> isProductsLoaded products then s
      else
        case foldl (validateCartItems_step products) ([], False) (cart s) of
          (validCart, hasChanges) \<Rightarrow>
            if hasChanges then
              let s1 = updateCartDisplay (saveCart (s\<lparr>cart := validCart\<rparr>))
              in if length validCart \<noteq> length (cart s1)
                 then showNotification ProductsRemoved s1
                 else s1
            else s)"

text \<open>The documented range of a line's quantity, for every line of a cart.\<close>

definition quantities_in_range :: "cartItem list \<Rightarrow> bool" where
  "quantities_in_range c = list_all (\<lambda>l. 1 \<le> cartItem_quantity l \<and> cartItem_quantity l \<le> 10) c"

text \<open>A cell that is truthy and is not text: a number other than 0, or \<open>true\<close>.\<close>

definition truthy_not_text :: "jsval \<Rightarrow> bool" where
  "truthy_not_text v = (case v of Bool b \<Rightarrow> b | Num n \<Rightarrow> truthy (Num n) | _ \<Rightarrow> False)"

text \<open>The raw record \<open>{}\<close>: every property is absent.\<close>

definition empty_record :: raw_product where
  "empty_record =
     \<lparr> raw_Product_ID = Undefined, raw_Name = Undefined, raw_Description = Undefined,
       raw_Price_BDT = Undefined, raw_Category = Undefined, raw_Size = Undefined,
       raw_Color = Undefined, raw_Drive_Link = Undefined, raw_Image_Folder = Undefined,
       raw_Main_Image = Undefined, raw_Image1 = Undefined, raw_Image2 = Undefined,
       raw_Image3 = Undefined, raw_Image4 = Undefined, raw_Image5 = Undefined,
       raw_Image6 = Undefined \<rparr>"

section \<open>Evaluation rules\<close>

lemma rep_numeral: "rep (numeral k) m s = concat (map (rep (pred_numeral k) m) (m s))"
  by (simp add: numeral_eq_Suc)

lemmas phone_eval = validatePhone_def regex_test_def phoneRegex_def Chr_def isDigit_def
  isWhiteSpace_def ascii_def rep_numeral

lemmas parse_eval = parseInt_def ToString_def ascii_def isWhiteSpace_def isRadixDigit_def
  digitValue_def Let_def

lemmas cart_eval = addToCart_def truthy_def or_null_def quantity_or_1_def saveCart_def
  updateCartDisplay_def dispatchCartUpdate_def showNotification_def ascii_def Let_def

lemmas validate_eval = validateCartItems_def validateCartItems_step_def getProductById_def
  isProductsLoaded_def saveCart_def updateCartDisplay_def showNotification_def ascii_def Let_def

lemma ascii_eq_Nil: "ascii s = [] \<longleftrightarrow> s = []"
  by (simp add: ascii_def)

section \<open>Delivery fee and area\<close>

lemma dhakaAreas_agree: "getDeliveryArea_dhakaAreas = calculateDeliveryFee_dhakaAreas"
  by (simp add: calculateDeliveryFee_dhakaAreas_def getDeliveryArea_dhakaAreas_def)

text \<open>
  On text written in ASCII and the Bengali block, \<open>toLowerCase\<close> replaces A to Z by
  a to z and leaves every other code unit as it is.
\<close>

lemma lowercase_plain:
  "c < 128 \<or> (2432 \<le> c \<and> c \<le> 2559) \<Longrightarrow> lowercase_in lowercase_table c = fold_case c"
  unfolding lowercase_table_def fold_case_def by (elim disjE) simp_all

lemma StringToCodePoints_plain: "plain_text s \<Longrightarrow> StringToCodePoints s = s"
  by (induction s rule: StringToCodePoints.induct) (auto simp add: plain_text_def)

lemma CodePointsToString_small: "list_all (\<lambda>c. c < 65536) s \<Longrightarrow> CodePointsToString s = s"
  by (induction s) (simp_all add: CodePointsToString_def)

lemma toLowercase_plain: "plain_text s \<Longrightarrow> toLowercase passed s = map fold_case s"
proof (induction s arbitrary: passed)
  case Nil
  then show ?case by simp
next
  case (Cons c s)
  then have c: "c < 128 \<or> (2432 \<le> c \<and> c \<le> 2559)" and s: "plain_text s"
    by (simp_all add: plain_text_def)
  from c have "c \<noteq> 931" "c \<noteq> 304" by auto
  with c s Cons.IH show ?case by (simp add: lowercase_plain)
qed

lemma toLowerCase_plain: "plain_text s \<Longrightarrow> toLowerCase s = map fold_case s"
proof -
  assume p: "plain_text s"
  have "list_all (\<lambda>c. c < 65536) (map fold_case s)"
    using p by (auto simp add: plain_text_def fold_case_def list_all_iff)
  with p show ?thesis
    by (simp add: toLowerCase_def StringToCodePoints_plain toLowercase_plain
        CodePointsToString_small)
qed

text \<open>
  The lowercased address includes the lowercased name exactly when the name occurs in the
  address, letter case apart.
\<close>

lemma includes_str_iff:
  "includes_str s sub \<longleftrightarrow> (\<exists>i \<le> length s. take (length sub) (drop i s) = sub)"
proof (induction s)
  case Nil
  then show ?case by auto
next
  case (Cons c cs)
  show ?case
  proof
    assume "includes_str (c # cs) sub"
    then consider "take (length sub) (c # cs) = sub" | "includes_str cs sub" by auto
    then show "\<exists>i \<le> length (c # cs). take (length sub) (drop i (c # cs)) = sub"
    proof cases
      case 1
      then have "take (length sub) (drop 0 (c # cs)) = sub" by simp
      then show ?thesis by blast
    next
      case 2
      with Cons.IH obtain i where "i \<le> length cs" "take (length sub) (drop i cs) = sub" by blast
      then have "Suc i \<le> length (c # cs)" "take (length sub) (drop (Suc i) (c # cs)) = sub"
        by simp_all
      then show ?thesis by blast
    qed
  next
    assume "\<exists>i \<le> length (c # cs). take (length sub) (drop i (c # cs)) = sub"
    then obtain i where i: "i \<le> length (c # cs)" "take (length sub) (drop i (c # cs)) = sub"
      by blast
    show "includes_str (c # cs) sub"
    proof (cases i)
      case 0
      with i show ?thesis by simp
    next
      case (Suc j)
      with i have "j \<le> length cs" "take (length sub) (drop j cs) = sub" by simp_all
      with Cons.IH have "includes_str cs sub" by blast
      then show ?thesis by simp
    qed
  qed
qed

lemma map_eq_iff_list_all2:
  "map f xs = map f ys \<longleftrightarrow> list_all2 (\<lambda>x y. f x = f y) xs ys"
proof -
  have "map f xs = map f ys \<longleftrightarrow> list_all2 (=) (map f xs) (map f ys)"
    by (simp add: list.rel_eq)
  also have "\<dots> \<longleftrightarrow> list_all2 (\<lambda>x y. f x = f y) xs ys"
    by (simp add: list.rel_map)
  finally show ?thesis .
qed

lemma includes_folded:
  "includes_str (map fold_case address) (map fold_case name)
     \<longleftrightarrow> occurs_ignoring_case name address"
proof -
  have "includes_str (map fold_case address) (map fold_case name) \<longleftrightarrow>
      (\<exists>i \<le> length address.
         map fold_case (take (length name) (drop i address)) = map fold_case name)"
    by (simp add: includes_str_iff take_map drop_map)
  also have "\<dots> \<longleftrightarrow> (\<exists>i \<le> length address.
      list_all2 (\<lambda>x y. fold_case x = fold_case y) (take (length name) (drop i address)) name)"
    by (simp add: map_eq_iff_list_all2)
  also have "\<dots> \<longleftrightarrow> occurs_ignoring_case name address"
    by (auto simp add: occurs_ignoring_case_def list_ex_iff less_Suc_eq_le simp del: upt_Suc)
  finally show ?thesis .
qed

lemma dhakaAreas_plain: "list_all plain_text calculateDeliveryFee_dhakaAreas"
  by (simp add: calculateDeliveryFee_dhakaAreas_def plain_text_def ascii_def)

lemma inside_plain:
  assumes "plain_text address"
  shows "list_ex (\<lambda>area. includes_str (toLowerCase address) (toLowerCase area))
            calculateDeliveryFee_dhakaAreas
         \<longleftrightarrow> list_ex (\<lambda>area. occurs_ignoring_case area address) calculateDeliveryFee_dhakaAreas"
proof -
  have "includes_str (toLowerCase address) (toLowerCase area)
      \<longleftrightarrow> occurs_ignoring_case area address"
    if "area \<in> set calculateDeliveryFee_dhakaAreas" for area
  proof -
    from that dhakaAreas_plain have "plain_text area" by (simp add: list_all_iff)
    with assms show ?thesis by (simp add: toLowerCase_plain includes_folded)
  qed
  then show ?thesis by (simp add: list_ex_iff)
qed

lemma dhakaAreas_lower:
  "map toLowerCase calculateDeliveryFee_dhakaAreas = map (map fold_case) calculateDeliveryFee_dhakaAreas"
  using dhakaAreas_plain by (simp add: list_all_iff toLowerCase_plain)


lemmas delivery_eval = calculateDeliveryFee_def getDeliveryArea_def
  calculateDeliveryFee_dhakaAreas_def getDeliveryArea_dhakaAreas_def toLowerCase_plain
  plain_text_def fold_case_def ascii_def

lemma kelvin_lower:
  "toLowerCase [72, 111, 117, 115, 101, 32, 53, 44, 32, 68, 72, 65, 8490, 65]
     = [104, 111, 117, 115, 101, 32, 53, 44, 32, 100, 104, 97, 107, 97]"
  by (simp add: toLowerCase_def CodePointsToString_def lowercase_table_def)

text \<open>
  C4. For a non-empty address whose lowercased text contains the lowercased form of a name
  of the Dhaka list, the fee is 80 and the area \<open>inside_dhaka\<close>; for a non-empty address
  that contains none, the fee is 150 and the area \<open>outside_dhaka\<close>; for the empty address
  the fee is 150 and the area \<open>outside\<close>. An address that contains a name of the list is
  not empty. The match does not depend on letter case: on an address written in ASCII and
  Bengali, the lowercased address contains a lowercased name exactly when a name occurs
  in the address, letter case apart. "12 Road, Dhanmondi, Dhaka" gives 80 and
  \<open>inside_dhaka\<close>, "Village X, Rangpur" gives 150 and \<open>outside_dhaka\<close>,
  "5 Lake Rd, dHaKa" gives 80 and \<open>inside_dhaka\<close>, and so does "House 5, DHAKA"
  written with the Kelvin sign U+212A for its K, whose lowercase is k.
\<close>

theorem delivery_fee_and_area_by_address:
  "(address \<noteq> [] \<and> list_ex (\<lambda>area. includes_str (toLowerCase address) (toLowerCase area))
        calculateDeliveryFee_dhakaAreas
      \<longrightarrow> calculateDeliveryFee toLowerCase address = 80
          \<and> getDeliveryArea toLowerCase address = ''inside_dhaka'')
   \<and> (address \<noteq> [] \<and> \<not> list_ex (\<lambda>area. includes_str (toLowerCase address) (toLowerCase area))
        calculateDeliveryFee_dhakaAreas
      \<longrightarrow> calculateDeliveryFee toLowerCase address = 150
          \<and> getDeliveryArea toLowerCase address = ''outside_dhaka'')
   \<and> (address = []
      \<longrightarrow> calculateDeliveryFee toLowerCase address = 150
          \<and> getDeliveryArea toLowerCase address = ''outside'')
   \<and> (list_ex (\<lambda>area. includes_str (toLowerCase address) (toLowerCase area))
        calculateDeliveryFee_dhakaAreas \<longrightarrow> address \<noteq> [])
   \<and> (plain_text address \<longrightarrow>
        (list_ex (\<lambda>area. includes_str (toLowerCase address) (toLowerCase area))
           calculateDeliveryFee_dhakaAreas
         \<longleftrightarrow> list_ex (\<lambda>area. occurs_ignoring_case area address)
               calculateDeliveryFee_dhakaAreas))
   \<and> calculateDeliveryFee toLowerCase (ascii ''12 Road, Dhanmondi, Dhaka'') = 80
   \<and> getDeliveryArea toLowerCase (ascii ''12 Road, Dhanmondi, Dhaka'') = ''inside_dhaka''
   \<and> calculateDeliveryFee toLowerCase (ascii ''Village X, Rangpur'') = 150
   \<and> getDeliveryArea toLowerCase (ascii ''Village X, Rangpur'') = ''outside_dhaka''
   \<and> calculateDeliveryFee toLowerCase (ascii ''5 Lake Rd, dHaKa'') = 80
   \<and> getDeliveryArea toLowerCase (ascii ''5 Lake Rd, dHaKa'') = ''inside_dhaka''
   \<and> calculateDeliveryFee toLowerCase
         [72, 111, 117, 115, 101, 32, 53, 44, 32, 68, 72, 65, 8490, 65] = 80
   \<and> getDeliveryArea toLowerCase
         [72, 111, 117, 115, 101, 32, 53, 44, 32, 68, 72, 65, 8490, 65] = ''inside_dhaka''"
proof -
  have general:
    "calculateDeliveryFee lower a =
       (if a = [] then 150
        else if list_ex (\<lambda>area. includes_str (lower a) (lower area))
                  calculateDeliveryFee_dhakaAreas then 80 else 150)"
    "getDeliveryArea lower a =
       (if a = [] then ''outside''
        else if list_ex (\<lambda>area. includes_str (lower a) (lower area))
                  calculateDeliveryFee_dhakaAreas then ''inside_dhaka'' else ''outside_dhaka'')"
    for a and lower :: "jsstring \<Rightarrow> jsstring"
    by (simp_all add: calculateDeliveryFee_def getDeliveryArea_def dhakaAreas_agree)
  have "toLowerCase [] = []"
    by (simp add: toLowerCase_def CodePointsToString_def)
  then have "\<not> list_ex (\<lambda>area. includes_str (toLowerCase []) (toLowerCase area))
      calculateDeliveryFee_dhakaAreas"
    by (simp add: calculateDeliveryFee_dhakaAreas_def toLowerCase_plain plain_text_def ascii_def)
  then have named: "list_ex (\<lambda>area. includes_str (toLowerCase address) (toLowerCase area))
      calculateDeliveryFee_dhakaAreas \<longrightarrow> address \<noteq> []"
    by auto
  have plain: "plain_text address \<longrightarrow>
        (list_ex (\<lambda>area. includes_str (toLowerCase address) (toLowerCase area))
           calculateDeliveryFee_dhakaAreas
         \<longleftrightarrow> list_ex (\<lambda>area. occurs_ignoring_case area address)
               calculateDeliveryFee_dhakaAreas)"
    using inside_plain by blast
  have ex1: "calculateDeliveryFee toLowerCase (ascii ''12 Road, Dhanmondi, Dhaka'') = 80"
    by (simp add: delivery_eval)
  have ex2: "getDeliveryArea toLowerCase (ascii ''12 Road, Dhanmondi, Dhaka'') = ''inside_dhaka''"
    by (simp add: delivery_eval)
  have ex3: "calculateDeliveryFee toLowerCase (ascii ''Village X, Rangpur'') = 150"
    by (simp add: delivery_eval)
  have ex4: "getDeliveryArea toLowerCase (ascii ''Village X, Rangpur'') = ''outside_dhaka''"
    by (simp add: delivery_eval)
  have ex5: "calculateDeliveryFee toLowerCase (ascii ''5 Lake Rd, dHaKa'') = 80"
    by (simp add: delivery_eval)
  have ex6: "getDeliveryArea toLowerCase (ascii ''5 Lake Rd, dHaKa'') = ''inside_dhaka''"
    by (simp add: delivery_eval)
  have ex7: "calculateDeliveryFee toLowerCase
         [72, 111, 117, 115, 101, 32, 53, 44, 32, 68, 72, 65, 8490, 65] = 80"
    by (simp add: delivery_eval kelvin_lower)
  have ex8: "getDeliveryArea toLowerCase
         [72, 111, 117, 115, 101, 32, 53, 44, 32, 68, 72, 65, 8490, 65] = ''inside_dhaka''"
    by (simp add: delivery_eval kelvin_lower)
  from general [of toLowerCase address] general [of toLowerCase "[]"]
    named plain ex1 ex2 ex3 ex4 ex5 ex6 ex7 ex8
  show ?thesis by simp
qed

theorem delivery_fee_and_area_by_address_witness:
  "calculateDeliveryFee toLowerCase (ascii ''House 5, gulshan, DHAKA'') = 80
   \<and> getDeliveryArea toLowerCase (ascii ''House 5, gulshan, DHAKA'') = ''inside_dhaka''
   \<and> occurs_ignoring_case (ascii ''Dhaka'') (ascii ''House 5, gulshan, DHAKA'')
   \<and> calculateDeliveryFee toLowerCase [2478, 2495, 2480, 2474, 2497, 2480, 32, 49, 48] = 80
   \<and> calculateDeliveryFee toLowerCase (ascii ''Sylhet Sadar'') = 150
   \<and> getDeliveryArea toLowerCase (ascii ''Sylhet Sadar'') = ''outside_dhaka''
   \<and> \<not> list_ex (\<lambda>area. occurs_ignoring_case area (ascii ''Sylhet Sadar''))
         calculateDeliveryFee_dhakaAreas
   \<and> calculateDeliveryFee toLowerCase [] = 150
   \<and> getDeliveryArea toLowerCase [] = ''outside''"
proof -
  have p1: "plain_text (ascii ''House 5, gulshan, DHAKA'')"
    and p2: "plain_text (ascii ''Sylhet Sadar'')"
    by (simp_all add: plain_text_def ascii_def)
  have ne: "ascii ''House 5, gulshan, DHAKA'' \<noteq> []"
    "[2478, 2495, 2480, 2474, 2497, 2480, 32, 49, 48] \<noteq> ([] :: jsstring)"
    "ascii ''Sylhet Sadar'' \<noteq> []"
    by (simp_all add: ascii_def)
  have in1: "list_ex (\<lambda>area. includes_str (toLowerCase (ascii ''House 5, gulshan, DHAKA''))
        (toLowerCase area)) calculateDeliveryFee_dhakaAreas"
    by (simp add: delivery_eval)
  have in2: "list_ex (\<lambda>area. includes_str
        (toLowerCase [2478, 2495, 2480, 2474, 2497, 2480, 32, 49, 48])
        (toLowerCase area)) calculateDeliveryFee_dhakaAreas"
    by (simp add: delivery_eval)
  have out: "\<not> list_ex (\<lambda>area. includes_str (toLowerCase (ascii ''Sylhet Sadar''))
        (toLowerCase area)) calculateDeliveryFee_dhakaAreas"
    by (simp add: delivery_eval)
  have occ: "occurs_ignoring_case (ascii ''Dhaka'') (ascii ''House 5, gulshan, DHAKA'')"
    by (simp add: occurs_ignoring_case_def fold_case_def ascii_def upt_rec)
  show ?thesis
    using p1 p2 ne in1 in2 out occ
      delivery_fee_and_area_by_address [of "ascii ''House 5, gulshan, DHAKA''"]
      delivery_fee_and_area_by_address [of "[2478, 2495, 2480, 2474, 2497, 2480, 32, 49, 48]"]
      delivery_fee_and_area_by_address [of "ascii ''Sylhet Sadar''"]
      delivery_fee_and_area_by_address [of "[]"]
    by blast
qed

text \<open>
  C5. The fee utility and the area tag of the checkout agree on every address: the fee is
  80 exactly when the area is \<open>inside_dhaka\<close>, and 150 exactly when the area is
  \<open>outside_dhaka\<close> or \<open>outside\<close>. The checkout's own fee method is the utility.
\<close>

theorem delivery_fee_agrees_with_area:
  "(calculateDeliveryFee lower address = 80 \<longleftrightarrow> getDeliveryArea lower address = ''inside_dhaka'')
   \<and> (calculateDeliveryFee lower address = 150 \<longleftrightarrow>
        getDeliveryArea lower address = ''outside_dhaka''
        \<or> getDeliveryArea lower address = ''outside'')
   \<and> CheckoutManager_calculateDeliveryFee lower address = calculateDeliveryFee lower address"
  by (simp add: calculateDeliveryFee_def getDeliveryArea_def dhakaAreas_agree
      CheckoutManager_calculateDeliveryFee_def Let_def)

section \<open>Phone validation\<close>

lemma filter_dropWhile_not:
  "filter (\<lambda>c. \<not> P c) (dropWhile P xs) = filter (\<lambda>c. \<not> P c) xs"
  by (induction xs) auto

lemma replace_whitespace_filter:
  "replace_whitespace s = filter (\<lambda>c. \<not> isWhiteSpace c) s"
  by (induction s rule: replace_whitespace.induct) (simp_all add: filter_dropWhile_not)

text \<open>
  C8. The phone validator rejects "123" and accepts "01712345678", and so does the
  \<open>phone\<close> case of the checkout's field validation.
\<close>

theorem validatePhone_examples:
  "validatePhone (ascii ''123'') = False
   \<and> validateField ''phone'' (ascii ''123'') = False
   \<and> validatePhone (ascii ''01712345678'') = True
   \<and> validateField ''phone'' (ascii ''01712345678'') = True"
proof -
  have a: "validatePhone (ascii ''123'') = False"
    by (simp add: phone_eval)
  have b: "validatePhone (ascii ''01712345678'') = True"
    by (simp add: phone_eval)
  have c: "trim (ascii ''123'') = ascii ''123''" "trim (ascii ''01712345678'') = ascii ''01712345678''"
    by (simp_all add: trim_def ascii_def isWhiteSpace_def)
  from a b c show ?thesis by (simp add: validateField_def)
qed

text \<open>
  C10. \<open>validatePhone\<close> gives the same answer on a string and on that string with every
  white-space character removed; "017 1234 5678" is accepted exactly when "01712345678"
  is.
\<close>

theorem validatePhone_ignores_whitespace:
  "validatePhone s = validatePhone (filter (\<lambda>c. \<not> isWhiteSpace c) s)
   \<and> validatePhone (ascii ''017 1234 5678'') = validatePhone (ascii ''01712345678'')"
proof -
  have general: "validatePhone t = validatePhone (filter (\<lambda>c. \<not> isWhiteSpace c) t)" for t
    by (simp add: validatePhone_def replace_whitespace_filter)
  have "filter (\<lambda>c. \<not> isWhiteSpace c) (ascii ''017 1234 5678'') = ascii ''01712345678''"
    by (simp add: ascii_def isWhiteSpace_def)
  with general [of "ascii ''017 1234 5678''"] general [of s] show ?thesis by simp
qed

section \<open>Catalog mapping\<close>

lemma truthy_cases:
  "truthy v \<longleftrightarrow> (\<exists>s. v = Str s \<and> s \<noteq> [])
     \<or> (\<exists>n. v = Num n \<and> n \<noteq> ascii ''0'' \<and> n \<noteq> ascii ''NaN'') \<or> v = Bool True"
  by (cases v) (simp_all add: truthy_def)

lemma truthy_not_text_simps:
  "truthy_not_text (Str s) = False" "truthy_not_text Undefined = False"
  "truthy_not_text Null = False" "truthy_not_text (Bool b) = b"
  "truthy_not_text (Num n) = truthy (Num n)"
  by (simp_all add: truthy_not_text_def)

lemma error_is_TypeError: "(e :: error) = TypeError"
  by (cases e)

lemma filter_images_throws:
  "list_ex truthy_not_text imgs \<Longrightarrow> filter_images imgs = Inl TypeError"
proof (induction imgs)
  case Nil
  then show ?case by simp
next
  case (Cons img imgs)
  show ?case
  proof (cases img)
    case (Str s)
    with Cons.prems have "list_ex truthy_not_text imgs" by (simp add: truthy_not_text_simps)
    with Cons.IH have "filter_images imgs = Inl TypeError" by simp
    with Str show ?thesis by simp
  next
    case Undefined
    with Cons show ?thesis by (simp add: truthy_def truthy_not_text_simps)
  next
    case Null
    with Cons show ?thesis by (simp add: truthy_def truthy_not_text_simps)
  next
    case (Bool b)
    with Cons show ?thesis by (cases b) (simp_all add: truthy_def truthy_not_text_simps)
  next
    case (Num n)
    with Cons show ?thesis by (cases "truthy (Num n)") (simp_all add: truthy_not_text_simps)
  qed
qed

lemma filter_images_returns:
  "\<not> list_ex truthy_not_text imgs \<Longrightarrow> \<exists>kept. filter_images imgs = Inr kept"
proof (induction imgs)
  case Nil
  then show ?case by simp
next
  case (Cons img imgs)
  then obtain kept where kept: "filter_images imgs = Inr kept" by auto
  from Cons.prems have "\<not> truthy_not_text img" by simp
  with kept show ?case
    by (cases img) (auto simp add: truthy_not_text_simps truthy_def)
qed

lemma mapProduct_throws:
  "list_ex truthy_not_text (image_cells p) \<Longrightarrow> mapProduct r p = Inl TypeError"
  by (simp add: mapProduct_def filter_images_throws)

lemma mapProduct_returns:
  "\<not> list_ex truthy_not_text (image_cells p) \<Longrightarrow> \<exists>q. mapProduct r p = Inr q"
  using filter_images_returns [of "image_cells p"] by (auto simp add: mapProduct_def)

lemma mapProduct_fields:
  "mapProduct r p = Inr q \<Longrightarrow>
   product_id q = raw_Product_ID p \<and> product_name q = raw_Name p
   \<and> product_price q = (case parseInt (raw_Price_BDT p) of None \<Rightarrow> 0 | Some n \<Rightarrow> n)"
  by (auto simp add: mapProduct_def split: sum.splits)

lemma map_products_throws:
  "\<exists>p \<in> set ps. list_ex truthy_not_text (image_cells p) \<Longrightarrow>
   map_products draws i ps = Inl TypeError"
proof (induction ps arbitrary: i)
  case Nil
  then show ?case by simp
next
  case (Cons p ps)
  show ?case
  proof (cases "list_ex truthy_not_text (image_cells p)")
    case True
    then show ?thesis by (simp add: mapProduct_throws)
  next
    case False
    with Cons.prems have "\<exists>p \<in> set ps. list_ex truthy_not_text (image_cells p)" by simp
    with Cons.IH have "map_products draws (Suc i) ps = Inl TypeError" by blast
    then show ?thesis by (simp add: error_is_TypeError split: sum.splits)
  qed
qed

lemma map_products_returns:
  "\<forall>p \<in> set ps. \<not> list_ex truthy_not_text (image_cells p) \<Longrightarrow>
   \<exists>qs. map_products draws i ps = Inr qs
      \<and> map Inr qs = map (\<lambda>(j, p). mapProduct (draws j) p) (enumerate i ps)"
proof (induction ps arbitrary: i)
  case Nil
  then show ?case by simp
next
  case (Cons p ps)
  from Cons.prems obtain q where q: "mapProduct (draws i) p = Inr q"
    using mapProduct_returns [of p "draws i"] by auto
  from Cons.prems Cons.IH [of "Suc i"] obtain qs where
    qs: "map_products draws (Suc i) ps = Inr qs"
        "map Inr qs = map (\<lambda>(j, p). mapProduct (draws j) p) (enumerate (Suc i) ps)"
    by auto
  from q qs show ?case by simp
qed

lemma filter_through_Inr:
  "map g xs = map Inr qs \<Longrightarrow> (\<And>x q. x \<in> set xs \<Longrightarrow> g x = Inr q \<Longrightarrow> V q \<longleftrightarrow> C x) \<Longrightarrow>
   map Inr (filter V qs) = map g (filter C xs)"
proof (induction xs arbitrary: qs)
  case Nil
  then show ?case by simp
next
  case (Cons x xs)
  from Cons.prems(1) obtain q qs' where qs: "qs = q # qs'" "g x = Inr q" "map g xs = map Inr qs'"
    by (cases qs) auto
  have "map Inr (filter V qs') = map g (filter C xs)"
    using qs(3) Cons.prems(2) by (intro Cons.IH) auto
  moreover have "V q \<longleftrightarrow> C x" using Cons.prems(2) [of x q] qs(2) by simp
  ultimately show ?case using qs by simp
qed

lemma processProducts_throws:
  "\<exists>p \<in> set products. list_ex truthy_not_text (image_cells p) \<Longrightarrow>
   processProducts draws products = Inl TypeError"
  by (simp add: processProducts_def map_products_throws)

text \<open>
  C6, as amended. For every list of raw records whose cells are JSON scalars or absent and
  in which no image cell is truthy without being text, \<open>processProducts\<close> returns, in
  order, exactly the mapped records whose id and name are truthy and whose price is above
  0, and every record it returns meets the three conditions. The mapped id and name are
  the raw ones, and the price is what \<open>parseInt\<close> reads from the raw price, or 0 when
  it reads no number. Truthy is: non-empty text, a number other than 0, or \<open>true\<close>.
\<close>

theorem processProducts_keeps_valid:
  "((\<forall>p \<in> set products. \<not> list_ex truthy_not_text (image_cells p)) \<longrightarrow>
      (\<exists>out. processProducts draws products = Inr out
         \<and> map Inr out =
             map (\<lambda>(i, p). mapProduct (draws i) p)
               (filter (\<lambda>(i, p). truthy (raw_Product_ID p) \<and> truthy (raw_Name p)
                          \<and> 0 < (case parseInt (raw_Price_BDT p) of None \<Rightarrow> 0 | Some n \<Rightarrow> n))
                  (enumerate 0 products))
         \<and> (\<forall>q \<in> set out. truthy (product_id q) \<and> truthy (product_name q)
                \<and> 0 < product_price q)))
   \<and> (\<forall>q. mapProduct r p = Inr q \<longrightarrow>
        product_id q = raw_Product_ID p \<and> product_name q = raw_Name p
        \<and> product_price q = (case parseInt (raw_Price_BDT p) of None \<Rightarrow> 0 | Some n \<Rightarrow> n))
   \<and> (truthy v \<longleftrightarrow> (\<exists>s. v = Str s \<and> s \<noteq> [])
        \<or> (\<exists>n. v = Num n \<and> n \<noteq> ascii ''0'' \<and> n \<noteq> ascii ''NaN'') \<or> v = Bool True)"
proof -
  let ?g = "\<lambda>(i, p). mapProduct (draws i) p"
  let ?V = "\<lambda>q. truthy (product_id q) \<and> truthy (product_name q) \<and> 0 < product_price q"
  let ?C = "\<lambda>(i, p). truthy (raw_Product_ID p) \<and> truthy (raw_Name p)
              \<and> 0 < (case parseInt (raw_Price_BDT p) of None \<Rightarrow> 0 | Some n \<Rightarrow> n)"
  have returns: "\<exists>out. processProducts draws products = Inr out
         \<and> map Inr out = map ?g (filter ?C (enumerate 0 products))
         \<and> (\<forall>q \<in> set out. truthy (product_id q) \<and> truthy (product_name q)
                \<and> 0 < product_price q)"
    if ok: "\<forall>p \<in> set products. \<not> list_ex truthy_not_text (image_cells p)"
  proof -
    from map_products_returns [OF ok, of draws 0] obtain qs where
      qs: "map_products draws 0 products = Inr qs" "map Inr qs = map ?g (enumerate 0 products)"
      by blast
    have out: "processProducts draws products = Inr (filter ?V qs)"
      using qs(1) by (simp add: processProducts_def)
    have "map Inr (filter ?V qs) = map ?g (filter ?C (enumerate 0 products))"
    proof (rule filter_through_Inr)
      show "map ?g (enumerate 0 products) = map Inr qs" using qs(2) by simp
    next
      fix x q assume "x \<in> set (enumerate 0 products)" and g: "?g x = Inr q"
      obtain i p where x: "x = (i, p)" by (cases x)
      from g x have "mapProduct (draws i) p = Inr q" by simp
      from mapProduct_fields [OF this] x show "?V q \<longleftrightarrow> ?C x" by simp
    qed
    with out show ?thesis by simp
  qed
  have fields: "\<forall>q. mapProduct r p = Inr q \<longrightarrow>
        product_id q = raw_Product_ID p \<and> product_name q = raw_Name p
        \<and> product_price q = (case parseInt (raw_Price_BDT p) of None \<Rightarrow> 0 | Some n \<Rightarrow> n)"
    using mapProduct_fields by blast
  from returns fields truthy_cases [of v] show ?thesis
    by (intro conjI impI) assumption+
qed

theorem processProducts_keeps_valid_witness:
  "(let good = empty_record\<lparr>raw_Product_ID := Str (ascii ''P1''), raw_Name := Str (ascii ''Shoe''),
                 raw_Price_BDT := Num (ascii ''500''), raw_Main_Image := Str (ascii ''a.jpg'')\<rparr>;
        unnamed = good\<lparr>raw_Name := Str []\<rparr>;
        free = good\<lparr>raw_Price_BDT := Str (ascii ''free'')\<rparr>;
        zero_id = good\<lparr>raw_Product_ID := Num (ascii ''0'')\<rparr>
    in (\<forall>p \<in> set [unnamed, good, free, zero_id]. \<not> list_ex truthy_not_text (image_cells p))
       \<and> (\<exists>out. processProducts (\<lambda>i. 0) [unnamed, good, free, zero_id] = Inr out
          \<and> map product_id out = [Str (ascii ''P1'')]
          \<and> map product_price out = [500]
          \<and> map product_images out = [[Str (ascii ''a.jpg'')]]))"
proof -
  define good where "good = empty_record\<lparr>raw_Product_ID := Str (ascii ''P1''),
    raw_Name := Str (ascii ''Shoe''), raw_Price_BDT := Num (ascii ''500''),
    raw_Main_Image := Str (ascii ''a.jpg'')\<rparr>"
  define unnamed where "unnamed = good\<lparr>raw_Name := Str []\<rparr>"
  define free where "free = good\<lparr>raw_Price_BDT := Str (ascii ''free'')\<rparr>"
  define zero_id where "zero_id = good\<lparr>raw_Product_ID := Num (ascii ''0'')\<rparr>"
  note recs = good_def unnamed_def free_def zero_id_def
  have p1: "parseInt (Num (ascii ''500'')) = Some 500" by (simp add: parse_eval)
  have p2: "parseInt (Str (ascii ''free'')) = None" by (simp add: parse_eval)
  have t: "truthy (Str (ascii ''P1''))" "truthy (Str (ascii ''Shoe''))" "\<not> truthy (Str [])"
    "\<not> truthy (Num (ascii ''0''))"
    by (simp_all add: truthy_def ascii_def)
  have cells: "image_cells p = [Str (ascii ''a.jpg''), Undefined, Undefined, Undefined,
      Undefined, Undefined, Undefined]" if "p \<in> {unnamed, good, free, zero_id}" for p
    using that by (auto simp add: recs image_cells_def empty_record_def)
  have ok: "\<forall>p \<in> set [unnamed, good, free, zero_id]. \<not> list_ex truthy_not_text (image_cells p)"
    using cells by (simp add: truthy_not_text_simps)
  let ?kept = "filter (\<lambda>(i, p). truthy (raw_Product_ID p) \<and> truthy (raw_Name p)
                    \<and> 0 < (case parseInt (raw_Price_BDT p) of None \<Rightarrow> 0 | Some n \<Rightarrow> n))
                  (enumerate 0 [unnamed, good, free, zero_id])"
  from processProducts_keeps_valid
         [of "[unnamed, good, free, zero_id]" "\<lambda>i. 0", THEN conjunct1] ok
  have "\<exists>out. processProducts (\<lambda>i. 0) [unnamed, good, free, zero_id] = Inr out
      \<and> map Inr out = map (\<lambda>(i, p). mapProduct 0 p) ?kept
      \<and> (\<forall>q \<in> set out. truthy (product_id q) \<and> truthy (product_name q)
            \<and> 0 < product_price q)"
    by (rule mp)
  then obtain out where out: "processProducts (\<lambda>i. 0) [unnamed, good, free, zero_id] = Inr out"
    and list: "map Inr out = map (\<lambda>(i, p). mapProduct 0 p) ?kept"
    by (elim exE conjE)
  have kept: "?kept = [(1, good)]"
    by (simp add: recs t p1 p2)
  have "trim (ascii ''a.jpg'') \<noteq> []" by (simp add: trim_def ascii_def isWhiteSpace_def)
  then have "filter_images (image_cells good) = Inr [Str (ascii ''a.jpg'')]"
    using cells [of good] by (simp add: truthy_def ascii_eq_Nil)
  then have "\<exists>q. mapProduct 0 good = Inr q \<and> product_id q = Str (ascii ''P1'')
      \<and> product_price q = 500 \<and> product_images q = [Str (ascii ''a.jpg'')]"
    by (simp add: mapProduct_def good_def p1)
  with list kept have first: "map product_id out = [Str (ascii ''P1'')]
          \<and> map product_price out = [500]
          \<and> map product_images out = [[Str (ascii ''a.jpg'')]]"
    by (cases out) auto
  from ok out first show ?thesis
    unfolding recs Let_def by simp
qed

text \<open>
  C6, as stated, fails. A record with id "P1", name "Shoe", price 500 and the number 5 in
  the cell Image1 has a non-empty id, a non-empty name and a price above 0, and
  \<open>processProducts\<close> throws on it instead of returning it. A record whose id is the
  number 0 is left out of the result.
\<close>

theorem processProducts_numeric_image_counterexample:
  "truthy (Str (ascii ''P1'')) \<and> truthy (Str (ascii ''Shoe''))
   \<and> parseInt (Num (ascii ''500'')) = Some 500
   \<and> processProducts (\<lambda>i. 0)
        [empty_record\<lparr>raw_Product_ID := Str (ascii ''P1''), raw_Name := Str (ascii ''Shoe''),
           raw_Price_BDT := Num (ascii ''500''), raw_Image1 := Num (ascii ''5'')\<rparr>]
       = Inl TypeError
   \<and> processProducts (\<lambda>i. 0)
        [empty_record\<lparr>raw_Product_ID := Num (ascii ''0''), raw_Name := Str (ascii ''Shoe''),
           raw_Price_BDT := Num (ascii ''500'')\<rparr>]
       = Inr []"
proof -
  have p: "parseInt (Num (ascii ''500'')) = Some 500" by (simp add: parse_eval)
  have t: "truthy (Str (ascii ''P1''))" "truthy (Str (ascii ''Shoe''))"
    "truthy (Num (ascii ''5''))" "\<not> truthy (Num (ascii ''0''))"
    by (simp_all add: truthy_def ascii_def)
  have "filter_images (image_cells (empty_record\<lparr>raw_Product_ID := Str (ascii ''P1''),
      raw_Name := Str (ascii ''Shoe''), raw_Price_BDT := Num (ascii ''500''),
      raw_Image1 := Num (ascii ''5'')\<rparr>)) = Inl TypeError"
    by (simp add: image_cells_def empty_record_def t)
  then have a: "processProducts (\<lambda>i. 0)
        [empty_record\<lparr>raw_Product_ID := Str (ascii ''P1''), raw_Name := Str (ascii ''Shoe''),
           raw_Price_BDT := Num (ascii ''500''), raw_Image1 := Num (ascii ''5'')\<rparr>]
       = Inl TypeError"
    by (simp add: processProducts_def mapProduct_def)
  have "filter_images (image_cells (empty_record\<lparr>raw_Product_ID := Num (ascii ''0''),
      raw_Name := Str (ascii ''Shoe''), raw_Price_BDT := Num (ascii ''500'')\<rparr>)) = Inr []"
    by (simp add: image_cells_def empty_record_def truthy_def)
  then have b: "processProducts (\<lambda>i. 0)
        [empty_record\<lparr>raw_Product_ID := Num (ascii ''0''), raw_Name := Str (ascii ''Shoe''),
           raw_Price_BDT := Num (ascii ''500'')\<rparr>]
       = Inr []"
    by (simp add: processProducts_def mapProduct_def t)
  from p t a b show ?thesis by simp
qed

section \<open>Cart Manager: setting a quantity\<close>

lemma cart_after_effects [simp]:
  "cart (dispatchCartUpdate (updateCartDisplay (saveCart s))) = cart s"
  by (simp add: dispatchCartUpdate_def updateCartDisplay_def saveCart_def)

lemma cart_updateQuantity:
  "0 \<le> i \<Longrightarrow> i < int (length (cart s)) \<Longrightarrow> 0 < qty \<Longrightarrow>
   cart (updateQuantity i qty s) = (cart s)[nat i := (cart s ! nat i)\<lparr>cartItem_quantity := qty\<rparr>]"
  by (simp add: updateQuantity_def)

lemma updateQuantity_ignored:
  "qty \<le> 0 \<or> i < 0 \<or> int (length (cart s)) \<le> i \<Longrightarrow> updateQuantity i qty s = s"
  by (auto simp add: updateQuantity_def)

text \<open>
  C7. \<open>updateQuantity\<close> with an index inside the cart and a quantity above 0 gives the
  line at that index the quantity; with a quantity of 0 or below, or an index outside the
  cart, it leaves the whole state as it was; a quantity above 10, such as 50, is stored as
  given.
\<close>

theorem updateQuantity_sets_or_ignores:
  "(0 \<le> i \<and> i < int (length (cart s)) \<and> 0 < qty
      \<longrightarrow> cartItem_quantity (cart (updateQuantity i qty s) ! nat i) = qty)
   \<and> (qty \<le> 0 \<or> i < 0 \<or> int (length (cart s)) \<le> i \<longrightarrow> updateQuantity i qty s = s)
   \<and> (0 \<le> i \<and> i < int (length (cart s))
      \<longrightarrow> cartItem_quantity (cart (updateQuantity i 50 s) ! nat i) = 50)"
proof -
  have set_q: "cartItem_quantity (cart (updateQuantity i q s) ! nat i) = q"
    if "0 \<le> i" "i < int (length (cart s))" "0 < q" for q
  proof -
    from that have "nat i < length (cart s)" by simp
    with that show ?thesis by (simp add: cart_updateQuantity)
  qed
  from set_q [of qty] set_q [of 50] updateQuantity_ignored [of qty i s]
  show ?thesis by simp
qed

theorem updateQuantity_sets_or_ignores_witness:
  "(let l1 = \<lparr> cartItem_id = Str (ascii ''P1''), cartItem_name = Str (ascii ''Shoe''),
              cartItem_price = 500, cartItem_image = Str (ascii ''shoe.jpg''),
              cartItem_quantity = 2, cartItem_color = Null, cartItem_size = Null,
              cartItem_addedAt = ascii ''t1'' \<rparr>;
        l2 = l1\<lparr>cartItem_id := Str (ascii ''P2''), cartItem_quantity := 1\<rparr>;
        s = \<lparr> cart = [l1, l2], storage_writes = [], cartUpdated_events = 0,
              notifications = [] \<rparr>
    in map cartItem_quantity (cart (updateQuantity 1 7 s)) = [2, 7]
       \<and> map cartItem_quantity (cart (updateQuantity 1 50 s)) = [2, 50]
       \<and> updateQuantity 1 0 s = s \<and> updateQuantity 2 5 s = s \<and> updateQuantity (- 1) 5 s = s)"
proof -
  define l1 where "l1 = \<lparr> cartItem_id = Str (ascii ''P1''), cartItem_name = Str (ascii ''Shoe''),
              cartItem_price = 500, cartItem_image = Str (ascii ''shoe.jpg''),
              cartItem_quantity = 2, cartItem_color = Null, cartItem_size = Null,
              cartItem_addedAt = ascii ''t1'' \<rparr>"
  define l2 where "l2 = l1\<lparr>cartItem_id := Str (ascii ''P2''), cartItem_quantity := 1\<rparr>"
  define s where "s = \<lparr> cart = [l1, l2], storage_writes = [], cartUpdated_events = 0,
              notifications = [] \<rparr>"
  have len: "length (cart s) = 2" and q1: "cartItem_quantity l1 = 2"
    by (simp_all add: s_def l1_def)
  have a: "map cartItem_quantity (cart (updateQuantity 1 7 s)) = [2, 7]"
    using updateQuantity_sets_or_ignores [of 1 s 7] len q1
    by (simp add: updateQuantity_def s_def)
  have b: "map cartItem_quantity (cart (updateQuantity 1 50 s)) = [2, 50]"
    using updateQuantity_sets_or_ignores [of 1 s 50] len q1
    by (simp add: updateQuantity_def s_def)
  have c: "updateQuantity 1 0 s = s" "updateQuantity 2 5 s = s" "updateQuantity (- 1) 5 s = s"
    using updateQuantity_sets_or_ignores [of 1 s 0] updateQuantity_sets_or_ignores [of 2 s 5]
      updateQuantity_sets_or_ignores [of "- 1" s 5] len
    by simp_all
  from a b c show ?thesis
    unfolding l1_def l2_def s_def Let_def by simp
qed

text \<open>
  C9. \<open>updateQuantity\<close> with an index inside the cart and a quantity above 0 changes
  the quantity of that line only: the cart keeps its length, every other line is the line
  it was, at the position it was, and the line at the index keeps its id, name, price,
  image, color, size and time of adding.
\<close>

theorem updateQuantity_frame:
  assumes "0 \<le> i" and "i < int (length (cart s))" and "0 < qty"
  shows "length (cart (updateQuantity i qty s)) = length (cart s)
    \<and> (\<forall>j < length (cart s). j \<noteq> nat i \<longrightarrow> cart (updateQuantity i qty s) ! j = cart s ! j)
    \<and> cart (updateQuantity i qty s) ! nat i = (cart s ! nat i)\<lparr>cartItem_quantity := qty\<rparr>
    \<and> cartItem_id (cart (updateQuantity i qty s) ! nat i) = cartItem_id (cart s ! nat i)
    \<and> cartItem_name (cart (updateQuantity i qty s) ! nat i) = cartItem_name (cart s ! nat i)
    \<and> cartItem_price (cart (updateQuantity i qty s) ! nat i) = cartItem_price (cart s ! nat i)
    \<and> cartItem_image (cart (updateQuantity i qty s) ! nat i) = cartItem_image (cart s ! nat i)
    \<and> cartItem_color (cart (updateQuantity i qty s) ! nat i) = cartItem_color (cart s ! nat i)
    \<and> cartItem_size (cart (updateQuantity i qty s) ! nat i) = cartItem_size (cart s ! nat i)
    \<and> cartItem_addedAt (cart (updateQuantity i qty s) ! nat i)
        = cartItem_addedAt (cart s ! nat i)"
proof -
  from assms have idx: "nat i < length (cart s)" by simp
  have c: "cart (updateQuantity i qty s)
      = (cart s)[nat i := (cart s ! nat i)\<lparr>cartItem_quantity := qty\<rparr>]"
    using assms by (rule cart_updateQuantity)
  from idx show ?thesis unfolding c by simp
qed

theorem updateQuantity_frame_witness:
  "(let l1 = \<lparr> cartItem_id = Str (ascii ''P1''), cartItem_name = Str (ascii ''Shoe''),
              cartItem_price = 500, cartItem_image = Str (ascii ''shoe.jpg''),
              cartItem_quantity = 2, cartItem_color = Str (ascii ''red''), cartItem_size = Null,
              cartItem_addedAt = ascii ''t1'' \<rparr>;
        l2 = l1\<lparr>cartItem_id := Str (ascii ''P2''), cartItem_quantity := 1\<rparr>;
        s = \<lparr> cart = [l1, l2], storage_writes = [], cartUpdated_events = 0,
              notifications = [] \<rparr>
    in (0::int) \<le> 0 \<and> (0::int) < int (length (cart s)) \<and> (0::int) < 4
       \<and> cart (updateQuantity 0 4 s) = [l1\<lparr>cartItem_quantity := 4\<rparr>, l2])"
proof -
  define l1 where "l1 = \<lparr> cartItem_id = Str (ascii ''P1''), cartItem_name = Str (ascii ''Shoe''),
              cartItem_price = 500, cartItem_image = Str (ascii ''shoe.jpg''),
              cartItem_quantity = 2, cartItem_color = Str (ascii ''red''), cartItem_size = Null,
              cartItem_addedAt = ascii ''t1'' \<rparr>"
  define l2 where "l2 = l1\<lparr>cartItem_id := Str (ascii ''P2''), cartItem_quantity := 1\<rparr>"
  define s where "s = \<lparr> cart = [l1, l2], storage_writes = [], cartUpdated_events = 0,
              notifications = [] \<rparr>"
  have h: "(0::int) \<le> 0" "(0::int) < int (length (cart s))" "(0::int) < 4"
    by (simp_all add: s_def)
  have cs: "cart s = [l1, l2]" by (simp add: s_def)
  have "cart (updateQuantity 0 4 s) = [l1\<lparr>cartItem_quantity := 4\<rparr>, l2]"
  proof (rule nth_equalityI)
    show "length (cart (updateQuantity 0 4 s)) = length [l1\<lparr>cartItem_quantity := 4\<rparr>, l2]"
      using updateQuantity_frame [OF h] cs by simp
  next
    fix j assume "j < length (cart (updateQuantity 0 4 s))"
    with updateQuantity_frame [OF h] cs have j: "j < 2" by simp
    from j consider "j = 0" | "j = 1" by linarith
    then show "cart (updateQuantity 0 4 s) ! j = [l1\<lparr>cartItem_quantity := 4\<rparr>, l2] ! j"
      using updateQuantity_frame [OF h] cs by cases simp_all
  qed
  with h show ?thesis
    unfolding l1_def l2_def s_def Let_def by simp
qed

section \<open>Cart Manager: the quantity range, merging and reconciliation\<close>

text \<open>The operations behind the cart page's buttons keep the range.\<close>

lemma removeFromCart_in_range:
  "quantities_in_range (cart s) \<Longrightarrow> quantities_in_range (cart (removeFromCart i s))"
  by (auto simp add: removeFromCart_def quantities_in_range_def list_all_iff
      dest: in_set_takeD in_set_dropD)

lemma clearCart_in_range: "quantities_in_range (cart (clearCart s))"
  by (simp add: clearCart_def quantities_in_range_def)

lemma updateQuantity_in_range:
  "quantities_in_range (cart s) \<Longrightarrow> q \<le> 10 \<Longrightarrow>
   quantities_in_range (cart (updateQuantity i q s))"
  by (auto simp add: updateQuantity_def quantities_in_range_def list_all_iff
      dest!: set_update_subset_insert [THEN subsetD])

lemma decreaseQuantity_in_range:
  "quantities_in_range (cart s) \<Longrightarrow> decreaseQuantity i s = Inr s' \<Longrightarrow>
   quantities_in_range (cart s')"
proof -
  assume inv: "quantities_in_range (cart s)" and d: "decreaseQuantity i s = Inr s'"
  from d have idx: "0 \<le> i" "i < int (length (cart s))"
    by (auto simp add: decreaseQuantity_def split: if_splits)
  then have "cart s ! nat i \<in> set (cart s)" by simp
  with inv have "cartItem_quantity (cart s ! nat i) \<le> 10"
    by (simp add: quantities_in_range_def list_all_iff)
  with inv d idx show ?thesis
    by (auto simp add: decreaseQuantity_def Let_def removeFromCart_in_range
        updateQuantity_in_range split: if_splits)
qed

lemma decreaseQuantity_at_one:
  "0 \<le> i \<Longrightarrow> i < int (length (cart s)) \<Longrightarrow> cartItem_quantity (cart s ! nat i) = 1 \<Longrightarrow>
   \<exists>s'. decreaseQuantity i s = Inr s'
      \<and> cart s' = take (nat i) (cart s) @ drop (Suc (nat i)) (cart s)"
  by (simp add: decreaseQuantity_def removeFromCart_def)

lemma increaseQuantity_in_range:
  "quantities_in_range (cart s) \<Longrightarrow> increaseQuantity i s = Inr s' \<Longrightarrow>
   quantities_in_range (cart s')"
  by (auto simp add: increaseQuantity_def Let_def updateQuantity_in_range
      showNotification_def split: if_splits)

text \<open>
  C1. The range 1 to 10 of a line's quantity is not kept by \<open>addToCart\<close>: adding one
  more of a product to the line that holds 10 of it gives a line of 11. Nor is it kept by
  \<open>updateQuantity\<close>, which stores 50.
\<close>

theorem addToCart_exceeds_ten:
  "(let l = \<lparr> cartItem_id = Str (ascii ''P1''), cartItem_name = Str (ascii ''Shoe''),
              cartItem_price = 500, cartItem_image = Str (ascii ''shoe.jpg''),
              cartItem_quantity = 10, cartItem_color = Null, cartItem_size = Null,
              cartItem_addedAt = ascii ''t1'' \<rparr>;
        s = \<lparr> cart = [l], storage_writes = [], cartUpdated_events = 0, notifications = [] \<rparr>;
        it = \<lparr> item_id = Str (ascii ''P1''), item_name = Str (ascii ''Shoe''),
               item_price = 500, item_image = Str (ascii ''shoe.jpg''),
               item_quantity = Some 1, item_color = Null, item_size = Null \<rparr>
    in quantities_in_range (cart s)
       \<and> cart (addToCart (ascii ''t2'') (Some it) s) = [l\<lparr>cartItem_quantity := 11\<rparr>]
       \<and> \<not> quantities_in_range (cart (addToCart (ascii ''t2'') (Some it) s))
       \<and> cart (updateQuantity 0 50 s) = [l\<lparr>cartItem_quantity := 50\<rparr>]
       \<and> \<not> quantities_in_range (cart (updateQuantity 0 50 s)))"
  by (simp add: cart_eval quantities_in_range_def updateQuantity_def)

text \<open>
  C3. An item with no color and no size, as the product card builds it, is stored with
  color and size \<open>null\<close>; adding the same item again finds no line equal to it in color
  and size and appends a second line with the same product id, color and size, instead of
  raising the quantity of the first.
\<close>

theorem addToCart_duplicates_line_without_variant:
  "(let s = \<lparr> cart = [], storage_writes = [], cartUpdated_events = 0, notifications = [] \<rparr>;
        it = \<lparr> item_id = Str (ascii ''P1''), item_name = Str (ascii ''Shoe''),
               item_price = 500, item_image = Str (ascii ''shoe.jpg''),
               item_quantity = Some 1, item_color = Undefined, item_size = Undefined \<rparr>;
        l = \<lparr> cartItem_id = Str (ascii ''P1''), cartItem_name = Str (ascii ''Shoe''),
              cartItem_price = 500, cartItem_image = Str (ascii ''shoe.jpg''),
              cartItem_quantity = 1, cartItem_color = Null, cartItem_size = Null,
              cartItem_addedAt = ascii ''t1'' \<rparr>
    in cart (addToCart (ascii ''t1'') (Some it) s) = [l]
       \<and> cart (addToCart (ascii ''t2'') (Some it) (addToCart (ascii ''t1'') (Some it) s))
           = [l, l\<lparr>cartItem_addedAt := ascii ''t2''\<rparr>])"
  by (simp add: cart_eval)

text \<open>What \<open>validateCartItems\<close> does to any cart.\<close>

lemma validateCartItems_fold:
  "foldl (validateCartItems_step products) (validCart, hasChanges) c =
     (validCart @ concat (map (\<lambda>l. case getProductById products (cartItem_id l) of
          Some p \<Rightarrow> [l\<lparr>cartItem_name := product_name p, cartItem_price := product_price p,
                        cartItem_image := product_mainImage p\<rparr>]
        | None \<Rightarrow> []) c),
      hasChanges \<or> list_ex (\<lambda>l. getProductById products (cartItem_id l) = None) c)"
  by (induction c arbitrary: validCart hasChanges)
     (simp_all add: validateCartItems_step_def split: option.splits)

lemma validateCartItems_all_found:
  "\<not> list_ex (\<lambda>l. getProductById products (cartItem_id l) = None) (cart s) \<Longrightarrow>
   validateCartItems products s = s"
  by (simp add: validateCartItems_def validateCartItems_fold)

lemma validateCartItems_some_dropped:
  "products \<noteq> [] \<Longrightarrow>
   list_ex (\<lambda>l. getProductById products (cartItem_id l) = None) (cart s) \<Longrightarrow>
   validateCartItems products s =
     (let validCart = concat (map (\<lambda>l. case getProductById products (cartItem_id l) of
          Some p \<Rightarrow> [l\<lparr>cartItem_name := product_name p, cartItem_price := product_price p,
                        cartItem_image := product_mainImage p\<rparr>]
        | None \<Rightarrow> []) (cart s))
      in s\<lparr>cart := validCart, storage_writes := storage_writes s @ [validCart]\<rparr>)"
  by (simp add: validateCartItems_def validateCartItems_fold isProductsLoaded_def
      saveCart_def updateCartDisplay_def Let_def)

lemma validateCartItems_notifications:
  "notifications (validateCartItems products s) = notifications s"
  by (simp add: validateCartItems_def saveCart_def updateCartDisplay_def Let_def
      split: prod.splits)

text \<open>
  C2. \<open>validateCartItems\<close> on a cart whose only line is in the catalog, with an older
  name, price and image, leaves the line as it was. On a cart with a line that is in the
  catalog and one that is not, it drops the second, refreshes the first and saves the
  cart, and shows no notification.
\<close>

theorem validateCartItems_keeps_stale_and_never_notifies:
  "(let p = \<lparr> product_id = Str (ascii ''P1''), product_name = Str (ascii ''New shoe''),
              product_description = Null, product_price = 600, product_category = Null,
              product_size = Null, product_color = Null, product_driveLink = Null,
              product_imageFolder = Null, product_mainImage = Str (ascii ''new.jpg''),
              product_images = [Str (ascii ''new.jpg'')], product_inStock = True,
              product_featured = False, product_badge = [] \<rparr>;
        l1 = \<lparr> cartItem_id = Str (ascii ''P1''), cartItem_name = Str (ascii ''Old shoe''),
              cartItem_price = 500, cartItem_image = Str (ascii ''old.jpg''),
              cartItem_quantity = 2, cartItem_color = Null, cartItem_size = Null,
              cartItem_addedAt = ascii ''t1'' \<rparr>;
        l2 = l1\<lparr>cartItem_id := Str (ascii ''P9'')\<rparr>;
        l1' = l1\<lparr>cartItem_name := Str (ascii ''New shoe''), cartItem_price := 600,
                  cartItem_image := Str (ascii ''new.jpg'')\<rparr>;
        s = \<lparr> cart = [l1], storage_writes = [], cartUpdated_events = 0, notifications = [] \<rparr>;
        t = \<lparr> cart = [l1, l2], storage_writes = [], cartUpdated_events = 0,
              notifications = [] \<rparr>
    in validateCartItems [p] s = s
       \<and> map cartItem_price (cart (validateCartItems [p] s)) = [500]
       \<and> validateCartItems [p] t = t\<lparr>cart := [l1'], storage_writes := [[l1']]\<rparr>
       \<and> notifications (validateCartItems [p] t) = [])"
  by (simp add: validate_eval)

end
